theory Spec2Isabelle
  imports Main
begin

section \<open>User-data synchronisation: data model\<close>

text \<open>
  The development embeds the remote store client \<open>UserDataSyncStoreService\<close>, the
  abstract synchronisers \<open>AbstractSynchroniser\<close> and \<open>AbstractFileSynchroniser\<close>, and
  the \<open>KeybindingsSynchroniser\<close> built on them. Every asynchronous method becomes a
  function from the state of the synchroniser and of its collaborators (\<open>world\<close>) to a
  result and the new state; a rejected promise is the left summand of the result.

  One method runs at a time: the keybindings file and the store change under the
  synchroniser between two calls (any state may be the state a call starts in, and the
  request service answers as it likes), not between two steps of one call. The
  keybindings file is either absent or readable. Log output is not part of the state.
\<close>

datatype UserDataSyncErrorCode =
    Unauthorized | Forbidden | ConnectionRefused | RemotePreconditionFailed
  | TooLarge | NoRef | TurnedOff | SessionExpired
  | LocalPreconditionFailed | LocalInvalidContent | LocalError | Incompatible
  | Unknown

text \<open>
  \<open>UserDataSyncStoreError\<close> extends \<open>UserDataSyncError\<close> without adding anything, and the
  synchroniser only ever tests \<open>instanceof UserDataSyncError\<close> and the code, so both are
  the one constructor. \<open>JsError\<close> is a plain \<open>Error\<close> with its message, \<open>TypeError\<close> is
  what the runtime raises on a property read of \<open>null\<close>.
\<close>

datatype error = UserDataSyncError UserDataSyncErrorCode | JsError string | TypeError

datatype SyncStatus = Uninitialized | Idle | Syncing | HasConflicts

datatype OperatingSystem = Windows | Macintosh | Linux

record IUserData =
  ud_ref :: string
  ud_content :: "string option"

record ISyncData =
  sd_version :: int
  sd_content :: string

record IRemoteUserData =
  rud_ref :: string
  syncData :: "ISyncData option"

record IFileContent =
  fc_value :: string
  fc_mtime :: nat

record IFileSyncPreviewResult =
  fileContent :: "IFileContent option"
  remoteUserData :: IRemoteUserData
  lastSyncUserData :: "IRemoteUserData option"
  content :: "string option"
  hasLocalChanged :: bool
  hasRemoteChanged :: bool
  hasConflicts :: bool

text \<open>
  What \<open>syncPreviewResultPromise\<close> resolves to: a preview that \<open>generatePreview\<close> has
  computed, perhaps with its content replaced by \<open>accept\<close>, or the object with no other
  property than \<open>content\<close> that \<open>accept\<close> builds when there is no preview to spread.
\<close>

datatype preview = Computed IFileSyncPreviewResult | ContentOnly string

record ISyncContent =
  sc_mac :: "string option"
  sc_linux :: "string option"
  sc_windows :: "string option"
  sc_all :: "string option"

record IMergeResult =
  mergeContent :: string
  hasChanges :: bool
  mr_hasConflicts :: bool

record IResourceRefHandle =
  rh_ref :: string
  created :: int

text \<open>What \<open>JSON.parse\<close> returns where the code inspects it untyped (\<open>isSyncData\<close>).\<close>

datatype json =
    JNull | JBool bool | JNumber int | JString string
  | JArray "json list" | JObject "(string \<times> json) list"

text \<open>
  What \<open>JSON.parse\<close> does where the code reads the result at the declared type
  \<open>ISyncContent\<close>: it throws (\<open>SyntaxError\<close>), or it returns a value that is no object
  (\<open>NoObject\<close>: \<open>null\<close>, a number, a string, a boolean), an array (\<open>ArrayValue\<close>, with the
  text that \<open>JSON.stringify\<close> gives for it, which leaves out the named properties of an
  array), or an object, of which the four properties of \<open>ISyncContent\<close> are kept.
\<close>

datatype parsedSyncContent = SyntaxError | NoObject | ArrayValue string | Object ISyncContent

subsection \<open>HTTP requests and responses\<close>

datatype httpMethod = GET | POST | DELETE

text \<open>
  \<open>rq_url\<close> holds the path segments joined onto the store's URL; the headers are the
  entries of the \<open>IHeaders\<close> object in insertion order.
\<close>

record IRequestOptions =
  rq_type :: httpMethod
  rq_url :: "string list"
  rq_headers :: "(string \<times> string) list"
  rq_data :: "string option"

text \<open>\<open>body\<close> is what \<open>asText\<close> yields: \<open>None\<close> for a response without content.\<close>

record IRequestContext =
  statusCode :: nat
  res_headers :: "(string \<times> string) list"
  body :: "string option"

subsection \<open>Collaborators\<close>

text \<open>
  Functions of the runtime and of services whose code is outside the synchroniser. They
  are parameters of every definition below.
  \<^item> \<open>requestService\<close> answers a request given the requests sent before it; \<open>None\<close> is a
    rejected request (a network-level failure).
  \<^item> \<open>asJson\<close> of \<open>vs/platform/request/common/request\<close> decodes the body of a response
    (\<open>JNull\<close> is \<open>null\<close>); \<open>Inl\<close> is what it throws.
  \<^item> \<open>resourceRefHandle\<close> is the function that \<open>getAllRefs\<close> maps over the entries of the
    answer, for a resource key: it takes \<open>url\<close> and \<open>created\<close> from the entry and makes the
    url relative to the resource's (\<open>URI.parse\<close>, \<open>relativePath\<close>); \<open>Inl\<close> is what it throws.
  \<^item> \<open>merge\<close> is the keybindings merge called with local, remote and base content.
  \<^item> \<open>parseErrors\<close> gives the errors that \<open>parse\<close> of \<open>vs/base/common/json\<close> reports for a
    text under the options \<open>allowEmptyContent\<close> and \<open>allowTrailingComma\<close>.
  \<^item> \<open>JSON_parse\<close> and \<open>JSON_stringify\<close> are the runtime's functions on untyped values;
    \<open>None\<close> is a thrown \<open>SyntaxError\<close>.
  \<^item> \<open>parseSyncContent\<close> and \<open>stringifySyncContent\<close> are the same two functions at the
    declared type \<open>ISyncContent\<close>.

  The code is a module, hence strict: setting a property of a value that is no object
  raises a \<open>TypeError\<close>, as reading or setting a property of \<open>null\<close> does.
\<close>

record services =
  OS :: OperatingSystem
  requestService :: "IRequestOptions list \<Rightarrow> IRequestOptions \<Rightarrow> IRequestContext option"
  asJson :: "IRequestContext \<Rightarrow> error + json"
  resourceRefHandle :: "string \<Rightarrow> json \<Rightarrow> error + IResourceRefHandle"
  merge :: "string \<Rightarrow> string \<Rightarrow> string option \<Rightarrow> IMergeResult"
  parseErrors :: "string \<Rightarrow> string list"
  JSON_parse :: "string \<Rightarrow> json option"
  JSON_stringify :: "json \<Rightarrow> string"
  parseSyncContent :: "string \<Rightarrow> parsedSyncContent"
  stringifySyncContent :: "ISyncContent \<Rightarrow> string"

subsection \<open>State\<close>

text \<open>
  \<^item> \<open>enabled\<close>: \<open>isResourceEnabled(resourceKey)\<close>; \<open>keybindingsPerPlatform\<close>: the setting
    \<open>sync.keybindingsPerPlatform\<close>; \<open>storeConfigured\<close>: \<open>userDataSyncStore\<close> is defined;
    \<open>authToken\<close>: what \<open>getToken()\<close> returns.
  \<^item> \<open>tokenFailures\<close> counts calls of \<open>sendTokenFailed\<close>; \<open>requests\<close> lists the requests
    handed to the request service; \<open>statusEvents\<close> and \<open>telemetry\<close> list the fired status
    events and the published telemetry events; \<open>mergeCalls\<close> lists the arguments of the
    calls of \<open>merge\<close>.
  \<^item> \<open>localFile\<close> is the keybindings file (\<open>this.file\<close>), \<open>lastSyncResource\<close> the parsed checkpoint file
    (\<open>ref\<close> and \<open>content\<close>), \<open>conflictsPreviewResource\<close> the preview file, \<open>backups\<close> the
    snapshots handed to the backup store. \<open>clock\<close> stamps file writes.
\<close>

record lastSyncFile =
  ls_ref :: string
  ls_content :: string

record world =
  enabled :: bool
  keybindingsPerPlatform :: bool
  storeConfigured :: bool
  authToken :: "string option"
  tokenFailures :: nat
  requests :: "IRequestOptions list"
  status :: SyncStatus
  statusEvents :: "SyncStatus list"
  telemetry :: "string list"
  mergeCalls :: "(string \<times> string \<times> string option) list"
  syncPreviewResultPromise :: "preview option"
  localFile :: "IFileContent option"
  clock :: nat
  lastSyncResource :: "lastSyncFile option"
  conflictsPreviewResource :: "string option"
  backups :: "string list"

section \<open>The remote store client\<close>

definition resourceKey :: string where
  "resourceKey = ''keybindings''"

text \<open>
  Modelled from the spec: \<open>isSuccess\<close> of \<open>vs/platform/request/common/request\<close> is not
  among the sources; the spec speaks of a 2xx response.
\<close>

definition isSuccess :: "IRequestContext \<Rightarrow> bool" where
  "isSuccess context = (200 \<le> statusCode context \<and> statusCode context < 300)"

text \<open>
  \<open>request\<close>: no token (or an empty one) raises \<open>Unauthorized\<close> before anything is sent;
  a rejected request raises \<open>ConnectionRefused\<close>; 401, 403, 412 and 413 raise their
  errors, 401 after \<open>sendTokenFailed()\<close>; every other response is returned.
\<close>

definition request :: "services \<Rightarrow> IRequestOptions \<Rightarrow> world \<Rightarrow> (error + IRequestContext) \<times> world" where
  "request S options w =
     (case authToken w of
        None \<Rightarrow> (Inl (UserDataSyncError Unauthorized), w)
      | Some tok \<Rightarrow>
          if tok = [] then (Inl (UserDataSyncError Unauthorized), w)
          else
            let options' = options\<lparr>rq_headers := rq_headers options @ [(''authorization'', ''Bearer '' @ tok)]\<rparr>;
                w1 = w\<lparr>requests := requests w @ [options']\<rparr>
            in (case requestService S (requests w) options' of
                  None \<Rightarrow> (Inl (UserDataSyncError ConnectionRefused), w1)
                | Some context \<Rightarrow>
                    if statusCode context = 401
                    then (Inl (UserDataSyncError Unauthorized), w1\<lparr>tokenFailures := Suc (tokenFailures w1)\<rparr>)
                    else if statusCode context = 403 then (Inl (UserDataSyncError Forbidden), w1)
                    else if statusCode context = 412 then (Inl (UserDataSyncError RemotePreconditionFailed), w1)
                    else if statusCode context = 413 then (Inl (UserDataSyncError TooLarge), w1)
                    else (Inr context, w1)))"

text \<open>
  \<open>read\<close>: a 304 returns \<open>oldValue\<close> as it is (\<open>None\<close> when there was none: the source
  returns \<open>oldValue!\<close>); an empty \<open>etag\<close> counts as missing (\<open>!ref\<close>).
\<close>

definition read :: "services \<Rightarrow> IUserData option \<Rightarrow> world \<Rightarrow> (error + IUserData option) \<times> world" where
  "read S oldValue w =
     (if \<not> storeConfigured w then (Inl (JsError ''No settings sync store url configured.''), w)
      else
        let headers = [(''Cache-Control'', ''no-cache'')]
                      @ (case oldValue of Some ov \<Rightarrow> [(''If-None-Match'', ud_ref ov)] | None \<Rightarrow> [])
        in (case request S \<lparr>rq_type = GET, rq_url = [''resource'', resourceKey, ''latest''],
                              rq_headers = headers, rq_data = None\<rparr> w of
              (Inl e, w1) \<Rightarrow> (Inl e, w1)
            | (Inr context, w1) \<Rightarrow>
                if statusCode context = 304 then (Inr oldValue, w1)
                else if \<not> isSuccess context then (Inl (UserDataSyncError Unknown), w1)
                else (case map_of (res_headers context) ''etag'' of
                        None \<Rightarrow> (Inl (UserDataSyncError NoRef), w1)
                      | Some ref \<Rightarrow>
                          if ref = [] then (Inl (UserDataSyncError NoRef), w1)
                          else (Inr (Some \<lparr>ud_ref = ref, ud_content = body context\<rparr>), w1))))"

text \<open>
  \<open>write\<close> (primed here, the plain name being reserved): \<open>If-Match\<close> is sent only for
  a non-empty \<open>ref\<close> (\<open>if (ref)\<close>).
\<close>

definition write' :: "services \<Rightarrow> string \<Rightarrow> string option \<Rightarrow> world \<Rightarrow> (error + string) \<times> world" where
  "write' S data ref w =
     (if \<not> storeConfigured w then (Inl (JsError ''No settings sync store url configured.''), w)
      else
        let headers = [(''Content-Type'', ''text/plain'')]
                      @ (case ref of Some r \<Rightarrow> if r = [] then [] else [(''If-Match'', r)] | None \<Rightarrow> [])
        in (case request S \<lparr>rq_type = POST, rq_url = [''resource'', resourceKey],
                              rq_headers = headers, rq_data = Some data\<rparr> w of
              (Inl e, w1) \<Rightarrow> (Inl e, w1)
            | (Inr context, w1) \<Rightarrow>
                if \<not> isSuccess context then (Inl (UserDataSyncError Unknown), w1)
                else (case map_of (res_headers context) ''etag'' of
                        None \<Rightarrow> (Inl (UserDataSyncError NoRef), w1)
                      | Some newRef \<Rightarrow>
                          if newRef = [] then (Inl (UserDataSyncError NoRef), w1)
                          else (Inr newRef, w1))))"









section \<open>The abstract synchroniser\<close>

text \<open>The version of the \<open>KeybindingsSynchroniser\<close> (\<open>this.version\<close>).\<close>

definition version :: int where
  "version = 1"

text \<open>
  \<open>setStatus\<close> fires the status event on a change only, and publishes the two telemetry
  events on entering and on leaving \<open>HasConflicts\<close> for \<open>Idle\<close>.
\<close>

definition setStatus :: "SyncStatus \<Rightarrow> world \<Rightarrow> world" where
  "setStatus s w =
     (if status w \<noteq> s then
        w\<lparr>status := s,
          statusEvents := statusEvents w @ [s],
          telemetry := telemetry w
            @ (if s = HasConflicts then [''sync/conflictsDetected''] else [])
            @ (if status w = HasConflicts \<and> s = Idle then [''sync/conflictsResolved''] else [])\<rparr>
      else w)"

definition isEnabled :: "world \<Rightarrow> bool" where
  "isEnabled w = enabled w"

text \<open>
  \<open>isSyncData\<close>: an object of exactly two keys whose \<open>version\<close> is a non-zero number and
  whose \<open>content\<close> is a non-empty string (both are tested for truthiness first).
\<close>

definition isSyncData :: "json \<Rightarrow> bool" where
  "isSyncData thing =
     (case thing of
        JObject kvs \<Rightarrow>
          (case map_of kvs ''version'' of Some (JNumber n) \<Rightarrow> n \<noteq> 0 | _ \<Rightarrow> False)
          \<and> (case map_of kvs ''content'' of Some (JString s) \<Rightarrow> s \<noteq> [] | _ \<Rightarrow> False)
          \<and> length kvs = 2
      | _ \<Rightarrow> False)"

text \<open>The two directions of the cast between a checked \<open>json\<close> object and \<open>ISyncData\<close>.\<close>

definition asSyncData :: "json \<Rightarrow> ISyncData" where
  "asSyncData thing =
     (case thing of
        JObject kvs \<Rightarrow>
          \<lparr>sd_version = (case map_of kvs ''version'' of Some (JNumber n) \<Rightarrow> n | _ \<Rightarrow> 0),
           sd_content = (case map_of kvs ''content'' of Some (JString s) \<Rightarrow> s | _ \<Rightarrow> [])\<rparr>
      | _ \<Rightarrow> \<lparr>sd_version = 0, sd_content = []\<rparr>)"

definition ofSyncData :: "ISyncData option \<Rightarrow> json" where
  "ofSyncData sd =
     (case sd of
        None \<Rightarrow> JNull
      | Some d \<Rightarrow> JObject [(''version'', JNumber (sd_version d)), (''content'', JString (sd_content d))])"

text \<open>
  \<open>parseSyncData\<close>: content that does not parse gives \<open>null\<close>; content that parses to
  anything but a \<open>SyncData\<close> is migrated.
\<close>

definition parseSyncData :: "services \<Rightarrow> string \<Rightarrow> ISyncData option" where
  "parseSyncData S c =
     (case JSON_parse S c of
        None \<Rightarrow> None
      | Some thing \<Rightarrow>
          Some (if isSyncData thing then asSyncData thing else \<lparr>sd_version = version, sd_content = c\<rparr>))"

text \<open>
  \<open>getLastSyncUserData\<close>: a missing checkpoint file and an unreadable one both give
  \<open>null\<close>.
\<close>

definition getLastSyncUserData :: "services \<Rightarrow> world \<Rightarrow> IRemoteUserData option" where
  "getLastSyncUserData S w =
     (case lastSyncResource w of
        None \<Rightarrow> None
      | Some parsed \<Rightarrow>
          (case JSON_parse S (ls_content parsed) of
             None \<Rightarrow> None
           | Some thing \<Rightarrow>
               Some \<lparr>rud_ref = ls_ref parsed,
                     syncData = Some (if isSyncData thing then asSyncData thing
                                      else \<lparr>sd_version = version, sd_content = ls_content parsed\<rparr>)\<rparr>))"

definition updateLastSyncUserData :: "services \<Rightarrow> IRemoteUserData \<Rightarrow> world \<Rightarrow> world" where
  "updateLastSyncUserData S lastSyncRemoteUserData w =
     w\<lparr>lastSyncResource :=
         Some \<lparr>ls_ref = rud_ref lastSyncRemoteUserData,
               ls_content = JSON_stringify S (ofSyncData (syncData lastSyncRemoteUserData))\<rparr>\<rparr>"

text \<open>
  \<open>getUserData\<close>, the branch for last-sync data (the branch for a \<open>ref\<close> string serves
  \<open>getRemoteContent\<close> only).
\<close>

definition getUserData :: "services \<Rightarrow> IRemoteUserData option \<Rightarrow> world \<Rightarrow> (error + IUserData option) \<times> world" where
  "getUserData S refOrLastSyncData w =
     read S (case refOrLastSyncData of
               None \<Rightarrow> None
             | Some l \<Rightarrow>
                 Some \<lparr>ud_ref = rud_ref l,
                       ud_content = (case syncData l of
                                       None \<Rightarrow> None
                                     | Some d \<Rightarrow> Some (JSON_stringify S (ofSyncData (Some d))))\<rparr>) w"

text \<open>
  \<open>getRemoteUserData\<close>: destructuring the \<open>null\<close> that \<open>read\<close> returns on a 304 without
  an old value raises a \<open>TypeError\<close>.
\<close>

definition getRemoteUserData :: "services \<Rightarrow> IRemoteUserData option \<Rightarrow> world \<Rightarrow> (error + IRemoteUserData) \<times> world" where
  "getRemoteUserData S lastSyncData w =
     (case getUserData S lastSyncData w of
        (Inl e, w1) \<Rightarrow> (Inl e, w1)
      | (Inr None, w1) \<Rightarrow> (Inl TypeError, w1)
      | (Inr (Some ud), w1) \<Rightarrow>
          (Inr \<lparr>rud_ref = ud_ref ud,
                syncData = (case ud_content ud of None \<Rightarrow> None | Some c \<Rightarrow> parseSyncData S c)\<rparr>, w1))"

definition updateRemoteUserData :: "services \<Rightarrow> string \<Rightarrow> string option \<Rightarrow> world \<Rightarrow> (error + IRemoteUserData) \<times> world" where
  "updateRemoteUserData S c ref w =
     (let sd = \<lparr>sd_version = version, sd_content = c\<rparr>
      in (case write' S (JSON_stringify S (ofSyncData (Some sd))) ref w of
            (Inl e, w1) \<Rightarrow> (Inl e, w1)
          | (Inr newRef, w1) \<Rightarrow> (Inr \<lparr>rud_ref = newRef, syncData = Some sd\<rparr>, w1)))"

text \<open>
  Modelled from the spec: the backup store's \<open>backup\<close> is not among the sources; it
  persists one more snapshot.
\<close>

definition backupLocal :: "services \<Rightarrow> string \<Rightarrow> world \<Rightarrow> world" where
  "backupLocal S c w =
     w\<lparr>backups := backups w
          @ [JSON_stringify S (ofSyncData (Some \<lparr>sd_version = version, sd_content = c\<rparr>))]\<rparr>"

section \<open>The file synchroniser\<close>

datatype fileError = FILE_MODIFIED_SINCE | FileExists

text \<open>
  Modelled from the spec: the file service is not among the sources. \<open>writeFile\<close> with
  the content read before is conditioned on the file's modification stamp: it fails when
  the file now carries another stamp. \<open>createFile\<close> without \<open>overwrite\<close> fails when the
  file exists. A write stamps the file with the clock.
\<close>

definition writeFile :: "string \<Rightarrow> IFileContent \<Rightarrow> world \<Rightarrow> fileError + world" where
  "writeFile newContent oldContent w =
     (case localFile w of
        Some cur \<Rightarrow>
          if fc_mtime cur \<noteq> fc_mtime oldContent then Inl FILE_MODIFIED_SINCE
          else Inr (w\<lparr>localFile := Some \<lparr>fc_value = newContent, fc_mtime = clock w\<rparr>, clock := Suc (clock w)\<rparr>)
      | None \<Rightarrow>
          Inr (w\<lparr>localFile := Some \<lparr>fc_value = newContent, fc_mtime = clock w\<rparr>, clock := Suc (clock w)\<rparr>))"

definition createFile :: "string \<Rightarrow> world \<Rightarrow> fileError + world" where
  "createFile newContent w =
     (case localFile w of
        Some cur \<Rightarrow> Inl FileExists
      | None \<Rightarrow>
          Inr (w\<lparr>localFile := Some \<lparr>fc_value = newContent, fc_mtime = clock w\<rparr>, clock := Suc (clock w)\<rparr>))"

definition getLocalFileContent :: "world \<Rightarrow> IFileContent option" where
  "getLocalFileContent w = localFile w"

text \<open>\<open>updateLocalFileContent\<close> turns both file errors into \<open>LocalPreconditionFailed\<close>.\<close>

definition updateLocalFileContent :: "string \<Rightarrow> IFileContent option \<Rightarrow> world \<Rightarrow> (error + unit) \<times> world" where
  "updateLocalFileContent newContent oldContent w =
     (case (case oldContent of
              Some old \<Rightarrow> writeFile newContent old w
            | None \<Rightarrow> createFile newContent w) of
        Inl FILE_MODIFIED_SINCE \<Rightarrow> (Inl (UserDataSyncError LocalPreconditionFailed), w)
      | Inl FileExists \<Rightarrow> (Inl (UserDataSyncError LocalPreconditionFailed), w)
      | Inr w1 \<Rightarrow> (Inr (), w1))"

definition cancel :: "world \<Rightarrow> world" where
  "cancel w = w\<lparr>syncPreviewResultPromise := None\<rparr>"

definition stop :: "world \<Rightarrow> world" where
  "stop w = setStatus Idle ((cancel w)\<lparr>conflictsPreviewResource := None\<rparr>)"

text \<open>\<open>hasErrors\<close> of the JSON file synchroniser: the parser reports at least one error.\<close>

definition hasErrors :: "services \<Rightarrow> string \<Rightarrow> bool" where
  "hasErrors S c = (length (parseErrors S c) > 0)"

section \<open>The keybindings synchroniser\<close>

text \<open>Truthiness of a \<open>string | null\<close>: neither \<open>null\<close> nor the empty string.\<close>

definition truthy :: "string option \<Rightarrow> bool" where
  "truthy x = (case x of None \<Rightarrow> False | Some s \<Rightarrow> s \<noteq> [])"

text \<open>
  \<open>getKeybindingsContentFromSyncContent\<close>: the property for all platforms, or the one
  of the current platform when keybindings are kept per platform; an absent property
  gives \<open>null\<close>, and so does content that does not parse or parses to \<open>null\<close>, whatever
  is thrown being caught.
\<close>

definition getKeybindingsContentFromSyncContent :: "services \<Rightarrow> world \<Rightarrow> string \<Rightarrow> string option" where
  "getKeybindingsContentFromSyncContent S w syncContent =
     (case parseSyncContent S syncContent of
        SyntaxError \<Rightarrow> None
      | NoObject \<Rightarrow> None
      | ArrayValue text \<Rightarrow> None
      | Object parsed \<Rightarrow>
          if \<not> keybindingsPerPlatform w then sc_all parsed
          else (case OS S of
                  Macintosh \<Rightarrow> sc_mac parsed
                | Linux \<Rightarrow> sc_linux parsed
                | Windows \<Rightarrow> sc_windows parsed))"

text \<open>
  \<open>toSyncContent\<close>: only the parsing is inside the \<open>try\<close>. Sync content that does not
  parse leaves the empty object; \<open>null\<close> and the empty string stand for the text \<open>{}\<close>,
  which parses to the empty object. \<open>setKeybindings\<close> is what follows the \<open>try\<close>, up to
  the \<open>return\<close>: it raises a \<open>TypeError\<close> on a value that is no object, and what it sets
  on an array is lost when the array is turned into text again.
\<close>

definition setKeybindings :: "services \<Rightarrow> world \<Rightarrow> string \<Rightarrow> ISyncContent \<Rightarrow> ISyncContent" where
  "setKeybindings S w keybindingsContent parsed =
     (let parsed1 = (if \<not> keybindingsPerPlatform w then parsed\<lparr>sc_all := Some keybindingsContent\<rparr>
                     else parsed\<lparr>sc_all := None\<rparr>)
      in (case OS S of
            Macintosh \<Rightarrow> parsed1\<lparr>sc_mac := Some keybindingsContent\<rparr>
          | Linux \<Rightarrow> parsed1\<lparr>sc_linux := Some keybindingsContent\<rparr>
          | Windows \<Rightarrow> parsed1\<lparr>sc_windows := Some keybindingsContent\<rparr>))"

definition toSyncContent :: "services \<Rightarrow> world \<Rightarrow> string \<Rightarrow> string option \<Rightarrow> error + string" where
  "toSyncContent S w keybindingsContent syncContent =
     (case (if truthy syncContent then parseSyncContent S (the syncContent)
            else Object \<lparr>sc_mac = None, sc_linux = None, sc_windows = None, sc_all = None\<rparr>) of
        SyntaxError \<Rightarrow>
          Inr (stringifySyncContent S (setKeybindings S w keybindingsContent
                 \<lparr>sc_mac = None, sc_linux = None, sc_windows = None, sc_all = None\<rparr>))
      | NoObject \<Rightarrow> Inl TypeError
      | ArrayValue text \<Rightarrow> Inr text
      | Object parsed \<Rightarrow> Inr (stringifySyncContent S (setKeybindings S w keybindingsContent parsed)))"

text \<open>
  The end of \<open>generatePreview\<close>: a non-empty candidate is written to the preview file (the
  cancellation token is not set while the preview is being computed), and the preview is
  returned.
\<close>

definition previewResult :: "IFileContent option \<Rightarrow> IRemoteUserData \<Rightarrow> IRemoteUserData option
    \<Rightarrow> string option \<Rightarrow> bool \<Rightarrow> bool \<Rightarrow> bool \<Rightarrow> world \<Rightarrow> (error + IFileSyncPreviewResult) \<times> world" where
  "previewResult fc r l c lc rc cf w =
     (Inr \<lparr>fileContent = fc, remoteUserData = r, lastSyncUserData = l, content = c,
            hasLocalChanged = lc, hasRemoteChanged = rc, hasConflicts = cf\<rparr>,
      if truthy c then w\<lparr>conflictsPreviewResource := c\<rparr> else w)"

text \<open>
  The first three constants of \<open>generatePreview\<close>: the keybindings in the remote data and
  in the last-sync data, and the content of the file, \<open>[]\<close> when there is none.
\<close>

definition remoteContent :: "services \<Rightarrow> world \<Rightarrow> IRemoteUserData \<Rightarrow> string option" where
  "remoteContent S w r =
     (case syncData r of
        Some d \<Rightarrow> getKeybindingsContentFromSyncContent S w (sd_content d)
      | None \<Rightarrow> None)"

definition lastSyncContent :: "services \<Rightarrow> world \<Rightarrow> IRemoteUserData option \<Rightarrow> string option" where
  "lastSyncContent S w l =
     (case l of
        Some ls \<Rightarrow> (case syncData ls of
                      Some d \<Rightarrow> getKeybindingsContentFromSyncContent S w (sd_content d)
                    | None \<Rightarrow> None)
      | None \<Rightarrow> None)"

definition localContent :: "IFileContent option \<Rightarrow> string" where
  "localContent fc = (case fc of Some f \<Rightarrow> fc_value f | None \<Rightarrow> ''[]'')"

definition generatePreview :: "services \<Rightarrow> IRemoteUserData \<Rightarrow> IRemoteUserData option \<Rightarrow> world
    \<Rightarrow> (error + IFileSyncPreviewResult) \<times> world" where
  "generatePreview S r l w =
     (let fc = getLocalFileContent w
      in if truthy (remoteContent S w r) then
           if hasErrors S (localContent fc) then (Inl (UserDataSyncError LocalInvalidContent), w)
           else if \<not> truthy (lastSyncContent S w l)
                   \<or> lastSyncContent S w l \<noteq> Some (localContent fc)
                   \<or> lastSyncContent S w l \<noteq> remoteContent S w r
           then
             let result = merge S (localContent fc) (the (remoteContent S w r)) (lastSyncContent S w l);
                 w1 = w\<lparr>mergeCalls := mergeCalls w
                          @ [(localContent fc, the (remoteContent S w r), lastSyncContent S w l)]\<rparr>
             in if hasChanges result then
                  previewResult fc r l (Some (mergeContent result))
                    (mr_hasConflicts result \<or> mergeContent result \<noteq> localContent fc)
                    (mr_hasConflicts result \<or> Some (mergeContent result) \<noteq> remoteContent S w r)
                    (mr_hasConflicts result) w1
                else previewResult fc r l None False False False w1
           else previewResult fc r l None False False False w
         else (case fc of
                 Some f \<Rightarrow> previewResult fc r l (Some (fc_value f)) False True False w
               | None \<Rightarrow> previewResult fc r l None False False False w))"

text \<open>
  \<open>getPreview\<close> computes a preview only when none is in flight. A preview whose
  computation fails is dropped by the only caller, \<open>performSync\<close>, so it is not stored.
\<close>

definition getPreview :: "services \<Rightarrow> IRemoteUserData \<Rightarrow> IRemoteUserData option \<Rightarrow> world
    \<Rightarrow> (error + preview) \<times> world" where
  "getPreview S r l w =
     (case syncPreviewResultPromise w of
        Some result \<Rightarrow> (Inr result, w)
      | None \<Rightarrow>
          (case generatePreview S r l w of
             (Inl e, w1) \<Rightarrow> (Inl e, w1)
           | (Inr p, w1) \<Rightarrow> (Inr (Computed p), w1\<lparr>syncPreviewResultPromise := Some (Computed p)\<rparr>)))"

text \<open>
  \<open>apply\<close>, first block (\<open>content !== null\<close>): validation, the backup and the local
  write, the remote write, the deletion of the preview file. It returns the remote data,
  replaced by what the remote write returned.
\<close>

definition applyContent :: "services \<Rightarrow> bool \<Rightarrow> IFileSyncPreviewResult \<Rightarrow> world
    \<Rightarrow> (error + IRemoteUserData) \<times> world" where
  "applyContent S forcePush p w =
     (case content p of
        None \<Rightarrow> (Inr (remoteUserData p), w)
      | Some c \<Rightarrow>
          if hasErrors S c then (Inl (UserDataSyncError LocalInvalidContent), w)
          else
            (case (if hasLocalChanged p
                   then (case toSyncContent S w c None of
                           Inl e \<Rightarrow> (Inl e, w)
                         | Inr backup \<Rightarrow> updateLocalFileContent c (fileContent p) (backupLocal S backup w))
                   else (Inr (), w)) of
               (Inl e, w1) \<Rightarrow> (Inl e, w1)
             | (Inr u, w1) \<Rightarrow>
                 (case (if hasRemoteChanged p
                        then (case toSyncContent S w1 c (case syncData (remoteUserData p) of
                                                           Some d \<Rightarrow> Some (sd_content d)
                                                         | None \<Rightarrow> None) of
                                Inl e \<Rightarrow> (Inl e, w1)
                              | Inr remoteContents \<Rightarrow>
                                  updateRemoteUserData S remoteContents
                                    (if forcePush then None else Some (rud_ref (remoteUserData p))) w1)
                        else (Inr (remoteUserData p), w1)) of
                    (Inl e, w2) \<Rightarrow> (Inl e, w2)
                  | (Inr r', w2) \<Rightarrow> (Inr r', w2\<lparr>conflictsPreviewResource := None\<rparr>))))"

text \<open>
  \<open>apply\<close>, second block: the checkpoint. The sync content is built first; then
  \<open>remoteUserData.syncData!.version\<close> raises a \<open>TypeError\<close> when there is no remote sync
  data.
\<close>

definition applyLastSync :: "services \<Rightarrow> IFileSyncPreviewResult \<Rightarrow> IRemoteUserData \<Rightarrow> world
    \<Rightarrow> (error + unit) \<times> world" where
  "applyLastSync S p r' w =
     (if map_option rud_ref (lastSyncUserData p) \<noteq> Some (rud_ref r')
         \<and> (content p \<noteq> None \<or> fileContent p \<noteq> None)
      then
        (case toSyncContent S w (case content p of
                                   Some c \<Rightarrow> c
                                 | None \<Rightarrow> (case fileContent p of Some f \<Rightarrow> fc_value f | None \<Rightarrow> [])) None of
           Inl e \<Rightarrow> (Inl e, w)
         | Inr lastSyncContent' \<Rightarrow>
             (case syncData r' of
                None \<Rightarrow> (Inl TypeError, w)
              | Some d \<Rightarrow>
                  (Inr (), updateLastSyncUserData S
                             \<lparr>rud_ref = rud_ref r',
                              syncData = Some \<lparr>sd_version = sd_version d, sd_content = lastSyncContent'\<rparr>\<rparr> w)))
      else (Inr (), w))"

text \<open>
  \<open>apply\<close> (primed here, the plain name being reserved) consumes the preview in flight.
  Of an object with \<open>content\<close> only, the content is validated, both flags are undefined,
  so nothing is written, the preview file is deleted, and the read of
  \<open>remoteUserData.ref\<close> raises a \<open>TypeError\<close>.
\<close>

definition apply' :: "services \<Rightarrow> bool \<Rightarrow> world \<Rightarrow> (error + unit) \<times> world" where
  "apply' S forcePush w =
     (case syncPreviewResultPromise w of
        None \<Rightarrow> (Inr (), w)
      | Some (ContentOnly c) \<Rightarrow>
          if hasErrors S c then (Inl (UserDataSyncError LocalInvalidContent), w)
          else (Inl TypeError, w\<lparr>conflictsPreviewResource := None\<rparr>)
      | Some (Computed p) \<Rightarrow>
          (case applyContent S forcePush p w of
             (Inl e, w1) \<Rightarrow> (Inl e, w1)
           | (Inr r', w1) \<Rightarrow>
               (case applyLastSync S p r' w1 of
                  (Inl e, w2) \<Rightarrow> (Inl e, w2)
                | (Inr u, w2) \<Rightarrow> (Inr (), w2\<lparr>syncPreviewResultPromise := None\<rparr>))))"

text \<open>
  The body of the \<open>try\<close> of \<open>performSync\<close>; \<open>hasConflicts\<close> is undefined in an object with
  \<open>content\<close> only.
\<close>

definition performSyncTry :: "services \<Rightarrow> IRemoteUserData \<Rightarrow> IRemoteUserData option \<Rightarrow> world
    \<Rightarrow> (error + SyncStatus) \<times> world" where
  "performSyncTry S r l w =
     (case getPreview S r l w of
        (Inl e, w1) \<Rightarrow> (Inl e, w1)
      | (Inr result, w1) \<Rightarrow>
          if (case result of Computed p \<Rightarrow> hasConflicts p | ContentOnly c \<Rightarrow> False)
          then (Inr HasConflicts, w1)
          else (case apply' S False w1 of
                  (Inl e, w2) \<Rightarrow> (Inl e, w2)
                | (Inr u, w2) \<Rightarrow> (Inr Idle, w2)))"

text \<open>
  \<open>performSync\<close> drops the preview on any error and starts again on
  \<open>LocalPreconditionFailed\<close>; \<open>doSync\<close> fetches the remote data again, without last-sync
  data, and starts again on \<open>RemotePreconditionFailed\<close>. Neither loop is bounded: a run
  that does not return is \<open>None\<close>.
\<close>

partial_function (option) performSync :: "services \<Rightarrow> IRemoteUserData \<Rightarrow> IRemoteUserData option \<Rightarrow> world
    \<Rightarrow> ((error + SyncStatus) \<times> world) option" where
  "performSync S r l w =
     (case performSyncTry S r l w of
        (Inr st, w1) \<Rightarrow> Some (Inr st, w1)
      | (Inl e, w1) \<Rightarrow>
          if e = UserDataSyncError LocalPreconditionFailed
          then performSync S r l (w1\<lparr>syncPreviewResultPromise := None\<rparr>)
          else Some (Inl e, w1\<lparr>syncPreviewResultPromise := None\<rparr>))"

partial_function (option) doSync :: "services \<Rightarrow> IRemoteUserData \<Rightarrow> IRemoteUserData option \<Rightarrow> world
    \<Rightarrow> ((error + SyncStatus) \<times> world) option" where
  "doSync S r l w =
     (if (case syncData r of Some d \<Rightarrow> sd_version d > version | None \<Rightarrow> False)
      then Some (Inl (UserDataSyncError Incompatible), w\<lparr>telemetry := telemetry w @ [''sync/incompatible'']\<rparr>)
      else
        (case performSync S r l w of
           None \<Rightarrow> None
         | Some (Inr st, w1) \<Rightarrow> Some (Inr st, w1)
         | Some (Inl e, w1) \<Rightarrow>
             if e = UserDataSyncError RemotePreconditionFailed
             then (case getRemoteUserData S None w1 of
                     (Inl e2, w2) \<Rightarrow> Some (Inl e2, w2)
                   | (Inr r2, w2) \<Rightarrow> doSync S r2 l w2)
             else Some (Inl e, w1)))"

declare performSync.simps [code]
declare doSync.simps [code]

text \<open>
  \<open>sync\<close>: the three guards, then the checkpoint and the remote data (the checkpoint
  itself when the given \<open>ref\<close> is the checkpoint's), then \<open>doSync\<close>, whose status is set in
  the \<open>finally\<close> (\<open>Idle\<close> on an error). An error of the first fetch is raised before the
  \<open>try\<close>.
\<close>

definition sync :: "services \<Rightarrow> string option \<Rightarrow> world \<Rightarrow> ((error + unit) \<times> world) option" where
  "sync S ref w =
     (if \<not> isEnabled w then Some (Inr (), w)
      else if status w = HasConflicts then Some (Inr (), w)
      else if status w = Syncing then Some (Inr (), w)
      else
        let w1 = setStatus Syncing w;
            lastSync = getLastSyncUserData S w1
        in (case (if truthy ref \<and> lastSync \<noteq> None \<and> Some (rud_ref (the lastSync)) = ref
                  then (Inr (the lastSync), w1)
                  else getRemoteUserData S lastSync w1) of
              (Inl e, w2) \<Rightarrow> Some (Inl e, w2)
            | (Inr remote, w2) \<Rightarrow>
                (case doSync S remote lastSync w2 of
                   None \<Rightarrow> None
                 | Some (Inl e, w3) \<Rightarrow> Some (Inl e, setStatus Idle w3)
                 | Some (Inr st, w3) \<Rightarrow> Some (Inr (), setStatus st w3))))"

text \<open>
  \<open>accept\<close>: outside \<open>HasConflicts\<close> nothing happens. The preview in flight is spread
  into a new one with the accepted content; without a preview in flight the spread of
  \<open>null\<close> leaves the content alone. The status is set to \<open>Idle\<close> after \<open>apply(true)\<close> has
  returned; an error of \<open>apply\<close> leaves it.
\<close>

definition accept :: "services \<Rightarrow> string \<Rightarrow> world \<Rightarrow> (error + unit) \<times> world" where
  "accept S c w =
     (if status w = HasConflicts then
        let preview = syncPreviewResultPromise w;
            w0 = (cancel w)\<lparr>syncPreviewResultPromise :=
                    Some (case preview of
                            Some (Computed p) \<Rightarrow> Computed (p\<lparr>content := Some c\<rparr>)
                          | Some (ContentOnly c0) \<Rightarrow> ContentOnly c
                          | None \<Rightarrow> ContentOnly c)\<rparr>
        in (case apply' S True w0 of
              (Inl e, w1) \<Rightarrow> (Inl e, w1)
            | (Inr u, w1) \<Rightarrow> (Inr (), setStatus Idle w1))
      else (Inr (), w))"

section \<open>Auxiliary notions\<close>

text \<open>
  \<open>stale old w\<close>: the keybindings file is not what was read as \<open>old\<close> any more, as the
  file service sees it: it exists with another modification stamp, or it exists although
  none was read. \<open>sameLocal w w'\<close>: the two states agree on the status, the backups, the
  keybindings file and the clock, the checkpoint, the preview in flight and its file, and
  the per-platform setting, which is all that a request leaves alone of what \<open>apply\<close>
  reads or writes.
\<close>

text \<open>
  The mapping of answers to outcomes as the specification words it, to be compared with
  what the operations of the client do. \<open>answered notModified success answer\<close>: a
  rejected request is \<open>ConnectionRefused\<close>; 401, 403, 412 and 413 are \<open>Unauthorized\<close>,
  \<open>Forbidden\<close>, \<open>RemotePreconditionFailed\<close> and \<open>TooLarge\<close>; 304 gives the previous data
  of an operation that has some; any other status outside 2xx is \<open>Unknown\<close>; a 2xx answer
  is left to \<open>success\<close>. \<open>withRef\<close> is the success of an operation that returns the ref of
  the answer: \<open>NoRef\<close> when the \<open>etag\<close> is missing or empty. \<open>issues\<close>: the operation has
  sent the one request \<open>options\<close>, with the token added, its outcome is the mapping of the
  answer to it, and the token failure has been reported exactly on a 401.
\<close>

definition answered :: "'a option \<Rightarrow> (IRequestContext \<Rightarrow> error + 'a) \<Rightarrow> IRequestContext option \<Rightarrow> error + 'a" where
  "answered notModified success answer =
     (case answer of
        None \<Rightarrow> Inl (UserDataSyncError ConnectionRefused)
      | Some c \<Rightarrow>
          if statusCode c = 401 then Inl (UserDataSyncError Unauthorized)
          else if statusCode c = 403 then Inl (UserDataSyncError Forbidden)
          else if statusCode c = 412 then Inl (UserDataSyncError RemotePreconditionFailed)
          else if statusCode c = 413 then Inl (UserDataSyncError TooLarge)
          else if statusCode c = 304 \<and> notModified \<noteq> None then Inr (the notModified)
          else if \<not> (200 \<le> statusCode c \<and> statusCode c < 300) then Inl (UserDataSyncError Unknown)
          else success c)"

definition withRef :: "(string \<Rightarrow> IRequestContext \<Rightarrow> 'a) \<Rightarrow> IRequestContext \<Rightarrow> error + 'a" where
  "withRef result c =
     (case map_of (res_headers c) ''etag'' of
        None \<Rightarrow> Inl (UserDataSyncError NoRef)
      | Some ref \<Rightarrow> if ref = [] then Inl (UserDataSyncError NoRef) else Inr (result ref c))"

definition issues :: "services \<Rightarrow> world \<Rightarrow> string \<Rightarrow> IRequestOptions \<Rightarrow> (error + 'a) \<times> world
    \<Rightarrow> 'a option \<Rightarrow> (IRequestContext \<Rightarrow> error + 'a) \<Rightarrow> bool" where
  "issues S w tok options outcome notModified success =
     (let sent = options\<lparr>rq_headers := rq_headers options @ [(''authorization'', ''Bearer '' @ tok)]\<rparr>;
          answer = requestService S (requests w) sent
      in requests (snd outcome) = requests w @ [sent]
         \<and> fst outcome = answered notModified success answer
         \<and> tokenFailures (snd outcome)
             = (if map_option statusCode answer = Some 401 then Suc (tokenFailures w) else tokenFailures w))"

definition stale :: "IFileContent option \<Rightarrow> world \<Rightarrow> bool" where
  "stale old w =
     (case old of
        Some f \<Rightarrow> (case localFile w of Some cur \<Rightarrow> fc_mtime cur \<noteq> fc_mtime f | None \<Rightarrow> False)
      | None \<Rightarrow> localFile w \<noteq> None)"

definition sameLocal :: "world \<Rightarrow> world \<Rightarrow> bool" where
  "sameLocal w w' =
     (status w' = status w \<and> backups w' = backups w \<and> localFile w' = localFile w
      \<and> clock w' = clock w \<and> lastSyncResource w' = lastSyncResource w
      \<and> syncPreviewResultPromise w' = syncPreviewResultPromise w
      \<and> conflictsPreviewResource w' = conflictsPreviewResource w
      \<and> keybindingsPerPlatform w' = keybindingsPerPlatform w)"

section \<open>An example environment\<close>

text \<open>
  Concrete collaborators for the examples: a three-way merge on whole documents, a
  parser that reports an error for the one text \<open>{\<close>, a request service that answers the
  n-th request with the n-th entry of a script (and rejects the request once the script
  is used up), and a small codec in the place of JSON, in which the sync content \<open>null\<close>
  is the one value that is no object.
\<close>

definition testMerge :: "string \<Rightarrow> string \<Rightarrow> string option \<Rightarrow> IMergeResult" where
  "testMerge local remote base =
     (if local = remote then \<lparr>mergeContent = local, hasChanges = False, mr_hasConflicts = False\<rparr>
      else if base = Some local then \<lparr>mergeContent = remote, hasChanges = True, mr_hasConflicts = False\<rparr>
      else if base = Some remote then \<lparr>mergeContent = local, hasChanges = True, mr_hasConflicts = False\<rparr>
      else \<lparr>mergeContent = local, hasChanges = True, mr_hasConflicts = True\<rparr>)"

definition testStringifySyncContent :: "ISyncContent \<Rightarrow> string" where
  "testStringifySyncContent sc =
     ''{'' @ (case sc_mac sc of Some k \<Rightarrow> ''mac:'' @ k @ '';'' | None \<Rightarrow> [])
          @ (case sc_linux sc of Some k \<Rightarrow> ''linux:'' @ k @ '';'' | None \<Rightarrow> [])
          @ (case sc_windows sc of Some k \<Rightarrow> ''windows:'' @ k @ '';'' | None \<Rightarrow> [])
          @ (case sc_all sc of Some k \<Rightarrow> ''all:'' @ k @ '';'' | None \<Rightarrow> []) @ ''}''"

definition testDocuments :: "ISyncContent list" where
  "testDocuments =
     \<lparr>sc_mac = None, sc_linux = None, sc_windows = None, sc_all = None\<rparr>
     # map (\<lambda>k. \<lparr>sc_mac = None, sc_linux = Some k, sc_windows = None, sc_all = Some k\<rparr>)
         [[], ''[]'', ''[1]'', ''[2]'']"

definition testParseSyncContent :: "string \<Rightarrow> parsedSyncContent" where
  "testParseSyncContent s =
     (case find (\<lambda>sc. testStringifySyncContent sc = s) testDocuments of
        Some sc \<Rightarrow> Object sc
      | None \<Rightarrow> if s = ''null'' then NoObject else SyntaxError)"

definition testStringify :: "json \<Rightarrow> string" where
  "testStringify j =
     (case j of
        JObject [(k1, JNumber n), (k2, JString s)] \<Rightarrow>
          ''{'' @ k1 @ '':'' @ (if n = 1 then ''1'' else ''2'') @ '','' @ k2 @ '':'' @ s @ ''}''
      | _ \<Rightarrow> ''null'')"

definition testParse :: "string \<Rightarrow> json option" where
  "testParse s =
     (if take 19 s = ''{version:1,content:'' \<and> s \<noteq> [] \<and> last s = CHR ''}''
      then Some (JObject [(''version'', JNumber 1), (''content'', JString (butlast (drop 19 s)))])
      else if take 19 s = ''{version:2,content:'' \<and> s \<noteq> [] \<and> last s = CHR ''}''
      then Some (JObject [(''version'', JNumber 2), (''content'', JString (butlast (drop 19 s)))])
      else None)"

definition testServices :: "IRequestContext option list \<Rightarrow> services" where
  "testServices script =
     \<lparr>OS = Linux,
      requestService = (\<lambda>past options. if length past < length script then script ! length past else None),
      asJson = (\<lambda>context. case body context of
                             None \<Rightarrow> Inr JNull
                           | Some s \<Rightarrow> (case testParse s of
                                         None \<Rightarrow> Inl (JsError ''SyntaxError'')
                                       | Some j \<Rightarrow> Inr j)),
      resourceRefHandle = (\<lambda>key entry. case entry of
                                           JObject [(k1, JString url), (k2, JNumber n)] \<Rightarrow>
                                             Inr \<lparr>rh_ref = url, created = n\<rparr>
                                         | _ \<Rightarrow> Inl TypeError),
      merge = testMerge,
      parseErrors = (\<lambda>s. if s = ''{'' then [''CloseBraceExpected''] else []),
      JSON_parse = testParse,
      JSON_stringify = testStringify,
      parseSyncContent = testParseSyncContent,
      stringifySyncContent = testStringifySyncContent\<rparr>"

definition respond :: "nat \<Rightarrow> string \<Rightarrow> string option \<Rightarrow> IRequestContext option" where
  "respond code etag b = Some \<lparr>statusCode = code, res_headers = [(''etag'', etag)], body = b\<rparr>"

text \<open>An idle, enabled synchroniser with a token, before any file or checkpoint exists.\<close>

definition testWorld :: world where
  "testWorld =
     \<lparr>enabled = True, keybindingsPerPlatform = False, storeConfigured = True,
      authToken = Some ''token'', tokenFailures = 0, requests = [],
      status = Idle, statusEvents = [], telemetry = [], mergeCalls = [],
      syncPreviewResultPromise = None, localFile = None, clock = 0,
      lastSyncResource = None, conflictsPreviewResource = None, backups = []\<rparr>"

text \<open>
  The idle synchroniser with a keybindings file of the given content; remote data that
  does not exist yet, as the first fetch reports it; remote data and a checkpoint that
  hold the given keybindings.
\<close>

definition fileWith :: "string \<Rightarrow> world" where
  "fileWith k = testWorld\<lparr>localFile := Some \<lparr>fc_value = k, fc_mtime = 0\<rparr>, clock := 1\<rparr>"

definition noRemote :: IRemoteUserData where
  "noRemote = \<lparr>rud_ref = ''0'', syncData = None\<rparr>"

definition remoteWith :: "string \<Rightarrow> string \<Rightarrow> IRemoteUserData" where
  "remoteWith ref k =
     \<lparr>rud_ref = ref,
      syncData = Some \<lparr>sd_version = 1,
                       sd_content = testStringifySyncContent
                         \<lparr>sc_mac = None, sc_linux = Some k, sc_windows = None, sc_all = Some k\<rparr>\<rparr>\<rparr>"

definition lastSyncWith :: "string \<Rightarrow> string \<Rightarrow> IRemoteUserData option" where
  "lastSyncWith ref k = Some (remoteWith ref k)"

text \<open>
  The synchroniser with a file of content \<open>localK\<close> and, in flight, a preview with the
  given candidate and flags against remote data holding \<open>remoteK\<close>.
\<close>

definition previewOf :: "string \<Rightarrow> bool \<Rightarrow> bool \<Rightarrow> bool \<Rightarrow> string \<Rightarrow> string \<Rightarrow> world" where
  "previewOf c lc rc cf localK remoteK =
     (fileWith localK)
       \<lparr>syncPreviewResultPromise :=
          Some (Computed \<lparr>fileContent = Some \<lparr>fc_value = localK, fc_mtime = 0\<rparr>,
                          remoteUserData = remoteWith ''1'' remoteK, lastSyncUserData = None,
                          content = Some c, hasLocalChanged = lc, hasRemoteChanged = rc,
                          hasConflicts = cf\<rparr>)\<rparr>"

text \<open>
  A first synchronisation that ends in a conflict: local and remote keybindings differ
  and there is no checkpoint. The second answer of the script is for the write that
  resolves it.
\<close>

definition conflictServices :: services where
  "conflictServices =
     testServices [respond 200 ''1'' (Some ''{version:1,content:{linux:[2];all:[2];}}''),
                   respond 200 ''2'' None]"

definition conflictWorld :: world where
  "conflictWorld = (case sync conflictServices None (fileWith ''[1]'') of Some (r, w) \<Rightarrow> w | None \<Rightarrow> testWorld)"



text \<open>
  A store whose data holds empty keybindings under ref \<open>1\<close>, and that accepts a write
  under ref \<open>2\<close>.
\<close>

definition emptyRemoteServices :: services where
  "emptyRemoteServices =
     testServices [respond 200 ''1'' (Some ''{version:1,content:{linux:;all:;}}''), respond 200 ''2'' None]"

text \<open>
  An empty keybindings file and a store that holds nothing yet: the store answers the
  first fetch without content, accepts the write under ref \<open>1\<close>, answers the next fetch
  304 (nothing has changed since ref \<open>1\<close>), and accepts a further write under ref \<open>2\<close>.
  \<open>afterFirstSync\<close> is the state the first \<open>sync\<close> leaves.
\<close>

definition emptyFileServices :: services where
  "emptyFileServices =
     testServices [respond 204 ''0'' None, respond 200 ''1'' None,
                   Some \<lparr>statusCode = 304, res_headers = [], body = None\<rparr>, respond 200 ''2'' None]"

definition afterFirstSync :: world where
  "afterFirstSync = (case sync emptyFileServices None (fileWith []) of Some (r, w) \<Rightarrow> w | None \<Rightarrow> testWorld)"

section \<open>Guards of \<open>sync\<close> and \<open>doSync\<close>\<close>

text \<open>
  C6. When the resource is disabled, or the status is \<open>Syncing\<close> or \<open>HasConflicts\<close>,
  \<open>sync\<close> returns and leaves the whole state as it was: no request is sent, no file,
  checkpoint, backup or preview is written, the status does not change and no event is
  fired.
\<close>

theorem sync_guarded_noop:
  "\<not> enabled w \<or> status w = Syncing \<or> status w = HasConflicts \<Longrightarrow> sync S ref w = Some (Inr (), w)"
  by (auto simp: sync_def isEnabled_def)

theorem sync_guarded_noop_witness:
  "status (testWorld\<lparr>status := HasConflicts\<rparr>) = HasConflicts
   \<and> sync (testServices []) None (testWorld\<lparr>status := HasConflicts\<rparr>)
       = Some (Inr (), testWorld\<lparr>status := HasConflicts\<rparr>)"
  using sync_guarded_noop [of "testWorld\<lparr>status := HasConflicts\<rparr>" "testServices []" None]
  by simp

text \<open>
  C7. When the remote sync data exists and its version is greater than the
  synchroniser's, \<open>doSync\<close> returns the \<open>Incompatible\<close> error, and the state it leaves
  differs from the one it found by the telemetry event only: nothing was merged, written
  locally or remotely, or recorded in the checkpoint.
\<close>

theorem doSync_incompatible:
  "syncData r = Some d \<Longrightarrow> sd_version d > version \<Longrightarrow>
   doSync S r l w
     = Some (Inl (UserDataSyncError Incompatible), w\<lparr>telemetry := telemetry w @ [''sync/incompatible'']\<rparr>)"
  by (subst doSync.simps) simp

theorem doSync_incompatible_witness:
  "syncData \<lparr>rud_ref = ''7'', syncData = Some \<lparr>sd_version = 2, sd_content = ''{}''\<rparr>\<rparr>
     = Some \<lparr>sd_version = 2, sd_content = ''{}''\<rparr>
   \<and> sd_version \<lparr>sd_version = 2, sd_content = ''{}''\<rparr> > version
   \<and> doSync (testServices []) \<lparr>rud_ref = ''7'', syncData = Some \<lparr>sd_version = 2, sd_content = ''{}''\<rparr>\<rparr> None testWorld
       = Some (Inl (UserDataSyncError Incompatible), testWorld\<lparr>telemetry := [''sync/incompatible'']\<rparr>)"
  using doSync_incompatible [of "\<lparr>rud_ref = ''7'', syncData = Some \<lparr>sd_version = 2, sd_content = ''{}''\<rparr>\<rparr>"
      "\<lparr>sd_version = 2, sd_content = ''{}''\<rparr>" "testServices []" None testWorld]
  by (simp add: version_def testWorld_def)


section \<open>The remote store client: answers and errors\<close>

lemma request_sent:
  assumes "authToken w = Some tok" and "tok \<noteq> []"
  shows "request S options w =
     (let options' = options\<lparr>rq_headers := rq_headers options @ [(''authorization'', ''Bearer '' @ tok)]\<rparr>;
          w1 = w\<lparr>requests := requests w @ [options']\<rparr>
      in (case requestService S (requests w) options' of
            None \<Rightarrow> (Inl (UserDataSyncError ConnectionRefused), w1)
          | Some context \<Rightarrow>
              if statusCode context = 401
              then (Inl (UserDataSyncError Unauthorized), w1\<lparr>tokenFailures := Suc (tokenFailures w)\<rparr>)
              else if statusCode context = 403 then (Inl (UserDataSyncError Forbidden), w1)
              else if statusCode context = 412 then (Inl (UserDataSyncError RemotePreconditionFailed), w1)
              else if statusCode context = 413 then (Inl (UserDataSyncError TooLarge), w1)
              else (Inr context, w1)))"
  using assms by (simp add: request_def Let_def split: option.splits)

text \<open>
  Every operation of the client hands the answer of \<open>request\<close> to a tail of its own, which
  raises \<open>Unknown\<close> outside 2xx (\<open>read\<close>: after it has returned the old value on a 304).
\<close>

lemma request_issues:
  assumes "authToken w = Some tok" and "tok \<noteq> []"
      and "outcome = (case request S options w of
                        (Inl e, w1) \<Rightarrow> (Inl e, w1)
                      | (Inr context, w1) \<Rightarrow> (tail context, w1))"
      and "\<And>c. tail c = (if statusCode c = 304 \<and> notModified \<noteq> None then Inr (the notModified)
                          else if \<not> isSuccess c then Inl (UserDataSyncError Unknown)
                          else success c)"
  shows "issues S w tok options outcome notModified success"
  unfolding assms(3) issues_def answered_def Let_def request_sent [OF assms(1,2)]
  by (auto simp add: assms(4) isSuccess_def split: option.splits)





lemma write_issues:
  assumes "storeConfigured w" and "authToken w = Some tok" and "tok \<noteq> []"
  shows "issues S w tok
           \<lparr>rq_type = POST, rq_url = [''resource'', resourceKey],
            rq_headers = [(''Content-Type'', ''text/plain'')]
                         @ (case ref of Some r \<Rightarrow> if r = [] then [] else [(''If-Match'', r)] | None \<Rightarrow> []),
            rq_data = Some data\<rparr>
           (write' S data ref w) None (withRef (\<lambda>newRef c. newRef))"
  by (rule request_issues [OF assms(2,3), where tail = "\<lambda>c. if \<not> isSuccess c then Inl (UserDataSyncError Unknown)
                                                              else withRef (\<lambda>newRef c. newRef) c"])
     (simp_all add: write'_def assms(1) withRef_def Let_def split: prod.splits sum.splits option.splits)







section \<open>The retry of \<open>doSync\<close>\<close>

lemma getRemoteUserData_None_requests:
  assumes "storeConfigured w" and "authToken w = Some tok" and "tok \<noteq> []"
  shows "requests (snd (getRemoteUserData S None w))
           = requests w @ [\<lparr>rq_type = GET, rq_url = [''resource'', resourceKey, ''latest''],
                            rq_headers = [(''Cache-Control'', ''no-cache''), (''authorization'', ''Bearer '' @ tok)],
                            rq_data = None\<rparr>]"
  using assms
  by (simp add: getRemoteUserData_def getUserData_def read_def request_def Let_def
           split: option.splits prod.splits sum.splits)

text \<open>
  C1, as stated, fails: the fetch after a \<open>RemotePreconditionFailed\<close> of \<open>performSync\<close>
  is made in the \<open>catch\<close> block, so its own errors leave \<open>doSync\<close>. Here the write is
  answered 412 and the fetch that follows is answered 412 as well.
\<close>

theorem doSync_precondition_failed_counterexample:
  "map_option fst (performSync (testServices [respond 412 ''0'' None, respond 412 ''0'' None]) noRemote None (fileWith ''[1]''))
     = Some (Inl (UserDataSyncError RemotePreconditionFailed))
   \<and> map_option fst (doSync (testServices [respond 412 ''0'' None, respond 412 ''0'' None]) noRemote None (fileWith ''[1]''))
     = Some (Inl (UserDataSyncError RemotePreconditionFailed))"
  by code_simp

text \<open>
  C1, amended. When the remote data is compatible and \<open>performSync\<close> raises
  \<open>RemotePreconditionFailed\<close>, \<open>doSync\<close> fetches the remote data without last-sync data
  (the request carries no \<open>If-None-Match\<close>); when the fetch succeeds, the result of
  \<open>doSync\<close> is that of \<open>doSync\<close> on the fetched data, and when the fetch fails, its error
  is the result. The error of \<open>performSync\<close> itself is never the result.
\<close>

theorem doSync_precondition_failed:
  assumes "\<forall>d. syncData r = Some d \<longrightarrow> sd_version d \<le> version"
      and "performSync S r l w = Some (Inl (UserDataSyncError RemotePreconditionFailed), w1)"
  shows "doSync S r l w
           = (case getRemoteUserData S None w1 of
                (Inl e, w2) \<Rightarrow> Some (Inl e, w2)
              | (Inr r2, w2) \<Rightarrow> doSync S r2 l w2)
         \<and> (storeConfigured w1 \<and> authToken w1 = Some tok \<and> tok \<noteq> [] \<longrightarrow>
              requests (snd (getRemoteUserData S None w1))
                = requests w1 @ [\<lparr>rq_type = GET, rq_url = [''resource'', resourceKey, ''latest''],
                                 rq_headers = [(''Cache-Control'', ''no-cache''), (''authorization'', ''Bearer '' @ tok)],
                                 rq_data = None\<rparr>])"
proof -
  have "\<not> (case syncData r of Some d \<Rightarrow> sd_version d > version | None \<Rightarrow> False)"
    using assms(1) by (auto split: option.splits)
  then have "doSync S r l w
           = (case getRemoteUserData S None w1 of
                (Inl e, w2) \<Rightarrow> Some (Inl e, w2)
              | (Inr r2, w2) \<Rightarrow> doSync S r2 l w2)"
    by (subst doSync.simps) (simp add: assms(2))
  then show ?thesis
    by (simp add: getRemoteUserData_None_requests)
qed

theorem doSync_precondition_failed_witness:
  "syncData noRemote = None
   \<and> performSync (testServices [respond 412 ''0'' None, respond 200 ''5'' None, respond 200 ''6'' None]) noRemote None (fileWith ''[1]'')
       = Some (Inl (UserDataSyncError RemotePreconditionFailed),
               snd (the (performSync (testServices [respond 412 ''0'' None, respond 200 ''5'' None, respond 200 ''6'' None]) noRemote None (fileWith ''[1]''))))
   \<and> map_option fst (doSync (testServices [respond 412 ''0'' None, respond 200 ''5'' None, respond 200 ''6'' None]) noRemote None (fileWith ''[1]''))
       = Some (Inr Idle)
   \<and> map (\<lambda>q. (rq_type q, map_of (rq_headers q) ''If-None-Match'', map_of (rq_headers q) ''If-Match''))
          (requests (snd (the (doSync (testServices [respond 412 ''0'' None, respond 200 ''5'' None, respond 200 ''6'' None]) noRemote None (fileWith ''[1]'')))))
       = [(POST, None, Some ''0''), (GET, None, None), (POST, None, Some ''5'')]"
proof -
  let ?S = "testServices [respond 412 ''0'' None, respond 200 ''5'' None, respond 200 ''6'' None]"
  have h1: "\<forall>d. syncData noRemote = Some d \<longrightarrow> sd_version d \<le> version"
    by (simp add: noRemote_def)
  have h2: "performSync ?S noRemote None (fileWith ''[1]'')
       = Some (Inl (UserDataSyncError RemotePreconditionFailed), snd (the (performSync ?S noRemote None (fileWith ''[1]''))))"
    by code_simp
  have c1: "doSync ?S noRemote None (fileWith ''[1]'')
           = (case getRemoteUserData ?S None (snd (the (performSync ?S noRemote None (fileWith ''[1]'')))) of
                (Inl e, w2) \<Rightarrow> Some (Inl e, w2)
              | (Inr r2, w2) \<Rightarrow> doSync ?S r2 None w2)"
    using doSync_precondition_failed [OF h1 h2] by simp
  have c2: "map_option fst (case getRemoteUserData ?S None (snd (the (performSync ?S noRemote None (fileWith ''[1]'')))) of
                (Inl e, w2) \<Rightarrow> Some (Inl e, w2)
              | (Inr r2, w2) \<Rightarrow> doSync ?S r2 None w2) = Some (Inr Idle)"
    by code_simp
  have c3: "map (\<lambda>q. (rq_type q, map_of (rq_headers q) ''If-None-Match'', map_of (rq_headers q) ''If-Match''))
          (requests (snd (the (case getRemoteUserData ?S None (snd (the (performSync ?S noRemote None (fileWith ''[1]'')))) of
                (Inl e, w2) \<Rightarrow> Some (Inl e, w2)
              | (Inr r2, w2) \<Rightarrow> doSync ?S r2 None w2))))
       = [(POST, None, Some ''0''), (GET, None, None), (POST, None, Some ''5'')]"
    by code_simp
  have h0: "syncData noRemote = None"
    by (simp add: noRemote_def)
  show ?thesis
    using h0 h2 c2 c3 unfolding c1 [symmetric] by blast
qed


section \<open>\<open>apply\<close>\<close>

lemma truthy_Some [simp]: "truthy (Some s) = (s \<noteq> [])"
  by (simp add: truthy_def)

lemma truthy_None [simp]: "truthy None = False"
  by (simp add: truthy_def)

text \<open>Sync content built from nothing never fails; the state matters by one setting only.\<close>

lemma toSyncContent_None:
  "toSyncContent S w c None
     = Inr (stringifySyncContent S (setKeybindings S w c
              \<lparr>sc_mac = None, sc_linux = None, sc_windows = None, sc_all = None\<rparr>))"
  by (simp add: toSyncContent_def)

lemma toSyncContent_setting:
  "keybindingsPerPlatform w1 = keybindingsPerPlatform w \<Longrightarrow> toSyncContent S w1 c x = toSyncContent S w c x"
  by (simp add: toSyncContent_def setKeybindings_def split: parsedSyncContent.splits)

text \<open>What the steps of \<open>apply\<close> leave alone, and what they send.\<close>

lemma request_sameLocal: "sameLocal w (snd (request S options w))"
  by (simp add: sameLocal_def request_def Let_def split: option.splits)

lemma write_sameLocal: "sameLocal w (snd (write' S data ref w))"
proof (cases "storeConfigured w")
  case False
  then show ?thesis by (simp add: write'_def sameLocal_def)
next
  case True
  let ?o = "\<lparr>rq_type = POST, rq_url = [''resource'', resourceKey],
             rq_headers = [(''Content-Type'', ''text/plain'')]
                      @ (case ref of Some r \<Rightarrow> if r = [] then [] else [(''If-Match'', r)] | None \<Rightarrow> []),
             rq_data = Some data\<rparr>"
  have "snd (write' S data ref w) = snd (request S ?o w)"
    using True by (simp add: write'_def Let_def split: prod.splits sum.splits option.splits)
  then show ?thesis
    using request_sameLocal [of w S ?o] by simp
qed

lemma updateRemoteUserData_sameLocal: "sameLocal w (snd (updateRemoteUserData S c ref w))"
proof -
  have "snd (updateRemoteUserData S c ref w)
          = snd (write' S (JSON_stringify S (ofSyncData (Some \<lparr>sd_version = version, sd_content = c\<rparr>))) ref w)"
    by (simp add: updateRemoteUserData_def Let_def split: prod.splits sum.splits)
  then show ?thesis
    using write_sameLocal [of w S _ ref] by simp
qed

lemma remoteStep_sameLocal:
  "sameLocal w (snd (case built of
                       Inl e \<Rightarrow> (Inl e, w)
                     | Inr k \<Rightarrow> updateRemoteUserData S k ref w))"
  by (cases built) (simp_all add: updateRemoteUserData_sameLocal, simp add: sameLocal_def)

lemma updateLocalFileContent_stale:
  "stale old w \<Longrightarrow> updateLocalFileContent c old w = (Inl (UserDataSyncError LocalPreconditionFailed), w)"
  by (auto simp add: stale_def updateLocalFileContent_def writeFile_def createFile_def split: option.splits)

lemma updateLocalFileContent_fresh:
  "\<not> stale old w \<Longrightarrow>
   updateLocalFileContent c old w
     = (Inr (), w\<lparr>localFile := Some \<lparr>fc_value = c, fc_mtime = clock w\<rparr>, clock := Suc (clock w)\<rparr>)"
  by (auto simp add: stale_def updateLocalFileContent_def writeFile_def createFile_def split: option.splits)

lemma applyLastSync_fields:
  "status (snd (applyLastSync S p r' w)) = status w
   \<and> backups (snd (applyLastSync S p r' w)) = backups w
   \<and> localFile (snd (applyLastSync S p r' w)) = localFile w
   \<and> requests (snd (applyLastSync S p r' w)) = requests w"
  by (simp add: applyLastSync_def toSyncContent_None updateLastSyncUserData_def split: option.splits)

lemma updateLocalFileContent_fields:
  "status (snd (updateLocalFileContent c old w)) = status w
   \<and> requests (snd (updateLocalFileContent c old w)) = requests w
   \<and> backups (snd (updateLocalFileContent c old w)) = backups w
   \<and> lastSyncResource (snd (updateLocalFileContent c old w)) = lastSyncResource w
   \<and> keybindingsPerPlatform (snd (updateLocalFileContent c old w)) = keybindingsPerPlatform w"
  by (cases "stale old w") (simp_all add: updateLocalFileContent_stale updateLocalFileContent_fresh)

lemma stale_backupLocal [simp]: "stale old (backupLocal S k w) = stale old w"
  by (cases old) (simp_all add: stale_def backupLocal_def)

text \<open>
  The local step of the first block of \<open>apply\<close>, with the sync content \<open>kb\<close> that goes to
  the backup, and the remote step that follows it.
\<close>

lemma applyContent_steps:
  assumes "content p = Some c" and "\<not> hasErrors S c" and "toSyncContent S w c None = Inr kb"
  shows "applyContent S fp p w =
     (case (if hasLocalChanged p
            then updateLocalFileContent c (fileContent p) (backupLocal S kb w)
            else (Inr (), w)) of
        (Inl e, w1) \<Rightarrow> (Inl e, w1)
      | (Inr u, w1) \<Rightarrow>
          (case (if hasRemoteChanged p
                 then (case toSyncContent S w c (map_option sd_content (syncData (remoteUserData p))) of
                         Inl e \<Rightarrow> (Inl e, w1)
                       | Inr k \<Rightarrow> updateRemoteUserData S k (if fp then None else Some (rud_ref (remoteUserData p))) w1)
                 else (Inr (remoteUserData p), w1)) of
             (Inl e, w2) \<Rightarrow> (Inl e, w2)
           | (Inr r', w2) \<Rightarrow> (Inr r', w2\<lparr>conflictsPreviewResource := None\<rparr>)))"
proof -
  have m: "(case syncData (remoteUserData p) of Some d \<Rightarrow> Some (sd_content d) | None \<Rightarrow> None)
             = map_option sd_content (syncData (remoteUserData p))"
    by (simp split: option.splits)
  obtain y w1 where l: "(if hasLocalChanged p
            then updateLocalFileContent c (fileContent p) (backupLocal S kb w)
            else (Inr (), w)) = (y, w1)"
    by (cases "(if hasLocalChanged p
            then updateLocalFileContent c (fileContent p) (backupLocal S kb w)
            else (Inr (), w))")
  have "keybindingsPerPlatform w1 = keybindingsPerPlatform w"
  proof (cases "hasLocalChanged p")
    case True
    then have "w1 = snd (updateLocalFileContent c (fileContent p) (backupLocal S kb w))"
      using l by simp
    then show ?thesis
      using updateLocalFileContent_fields [of c "fileContent p" "backupLocal S kb w"]
      by (simp add: backupLocal_def)
  next
    case False
    then show ?thesis using l by simp
  qed
  then have k: "toSyncContent S w1 c (map_option sd_content (syncData (remoteUserData p)))
                  = toSyncContent S w c (map_option sd_content (syncData (remoteUserData p)))"
    by (rule toSyncContent_setting)
  have l0: "(if hasLocalChanged p
             then (case toSyncContent S w c None of
                     Inl e \<Rightarrow> (Inl e, w)
                   | Inr backup \<Rightarrow> updateLocalFileContent c (fileContent p) (backupLocal S backup w))
             else (Inr (), w)) = (y, w1)"
    using l assms(3) by (cases "hasLocalChanged p") simp_all
  show ?thesis
    using assms(1,2) by (cases y) (simp_all add: applyContent_def l0 l m k)
qed

lemma applyContent_status: "status (snd (applyContent S fp p w)) = status w"
proof (cases "content p")
  case None
  then show ?thesis by (simp add: applyContent_def)
next
  case (Some c)
  show ?thesis
  proof (cases "hasErrors S c")
    case True
    then show ?thesis using Some by (simp add: applyContent_def)
  next
    case False
    obtain kb where kb: "toSyncContent S w c None = Inr kb"
      by (simp add: toSyncContent_None)
    let ?l = "(if hasLocalChanged p
            then updateLocalFileContent c (fileContent p) (backupLocal S kb w)
            else (Inr (), w))"
    obtain y w1 where l: "?l = (y, w1)"
      by (cases ?l)
    have s1: "status w1 = status w"
    proof (cases "hasLocalChanged p")
      case True
      then have "w1 = snd (updateLocalFileContent c (fileContent p) (backupLocal S kb w))"
        using l by simp
      then show ?thesis
        using updateLocalFileContent_fields [of c "fileContent p" "backupLocal S kb w"]
        by (simp add: backupLocal_def)
    next
      case False
      then show ?thesis using l by simp
    qed
    let ?b = "toSyncContent S w c (map_option sd_content (syncData (remoteUserData p)))"
    let ?r = "(if hasRemoteChanged p
                 then (case ?b of
                         Inl e \<Rightarrow> (Inl e, w1)
                       | Inr k \<Rightarrow> updateRemoteUserData S k (if fp then None else Some (rud_ref (remoteUserData p))) w1)
                 else (Inr (remoteUserData p), w1))"
    obtain x w2 where r: "?r = (x, w2)"
      by (cases ?r)
    have s2: "status w2 = status w1"
    proof (cases "hasRemoteChanged p")
      case True
      then have "w2 = snd (case ?b of
                         Inl e \<Rightarrow> (Inl e, w1)
                       | Inr k \<Rightarrow> updateRemoteUserData S k (if fp then None else Some (rud_ref (remoteUserData p))) w1)"
        using r by simp
      then show ?thesis
        using remoteStep_sameLocal [where w = w1 and built = ?b and S = S] by (simp add: sameLocal_def)
    next
      case False
      then show ?thesis using r by simp
    qed
    show ?thesis
    proof (cases y)
      case (Inl e)
      then show ?thesis
        using s1 by (simp add: applyContent_steps [OF Some False kb] l)
    next
      case (Inr u)
      then show ?thesis
        using s1 s2 by (cases x) (simp_all add: applyContent_steps [OF Some False kb] l r)
    qed
  qed
qed

lemma apply_after_content:
  assumes "syncPreviewResultPromise w = Some (Computed p)" and "applyContent S fp p w = (x, w1)"
  shows "backups (snd (apply' S fp w)) = backups w1
         \<and> localFile (snd (apply' S fp w)) = localFile w1
         \<and> status (snd (apply' S fp w)) = status w1
         \<and> requests (snd (apply' S fp w)) = requests w1"
proof (cases x)
  case (Inl e)
  then show ?thesis
    using assms by (simp add: apply'_def)
next
  case (Inr r')
  obtain y w3 where l: "applyLastSync S p r' w1 = (y, w3)"
    by (cases "applyLastSync S p r' w1")
  have "status w3 = status w1 \<and> backups w3 = backups w1 \<and> localFile w3 = localFile w1
        \<and> requests w3 = requests w1"
    using applyLastSync_fields [of S p r' w1] by (simp add: l)
  then show ?thesis
    using assms Inr by (cases y) (simp_all add: apply'_def l)
qed

lemma apply_status: "status (snd (apply' S fp w)) = status w"
proof (cases "syncPreviewResultPromise w")
  case None
  then show ?thesis by (simp add: apply'_def)
next
  case (Some result)
  show ?thesis
  proof (cases result)
    case (ContentOnly c)
    then show ?thesis using Some by (simp add: apply'_def)
  next
    case (Computed p)
    obtain x w1 where a: "applyContent S fp p w = (x, w1)"
      by (cases "applyContent S fp p w")
    have "status w1 = status w"
      using applyContent_status [of S fp p w] by (simp add: a)
    then show ?thesis
      using apply_after_content [OF _ a] Some Computed by simp
  qed
qed

lemma write_requests:
  assumes "storeConfigured w" and "authToken w = Some tok" and "tok \<noteq> []"
  shows "requests (snd (write' S data ref w))
           = requests w @ [\<lparr>rq_type = POST, rq_url = [''resource'', resourceKey],
                            rq_headers = [(''Content-Type'', ''text/plain'')]
                              @ (case ref of Some r \<Rightarrow> if r = [] then [] else [(''If-Match'', r)] | None \<Rightarrow> [])
                              @ [(''authorization'', ''Bearer '' @ tok)],
                            rq_data = Some data\<rparr>]"
  using write_issues [OF assms, of S ref data] by (simp add: issues_def Let_def)

lemma updateRemoteUserData_requests:
  assumes "storeConfigured w" and "authToken w = Some tok" and "tok \<noteq> []"
  shows "requests (snd (updateRemoteUserData S c ref w))
           = requests w @ [\<lparr>rq_type = POST, rq_url = [''resource'', resourceKey],
                            rq_headers = [(''Content-Type'', ''text/plain'')]
                              @ (case ref of Some r \<Rightarrow> if r = [] then [] else [(''If-Match'', r)] | None \<Rightarrow> [])
                              @ [(''authorization'', ''Bearer '' @ tok)],
                            rq_data = Some (JSON_stringify S (ofSyncData (Some \<lparr>sd_version = version, sd_content = c\<rparr>)))\<rparr>]"
proof -
  have "requests (snd (updateRemoteUserData S c ref w))
          = requests (snd (write' S (JSON_stringify S (ofSyncData (Some \<lparr>sd_version = version, sd_content = c\<rparr>))) ref w))"
    by (simp add: updateRemoteUserData_def Let_def split: prod.splits sum.splits)
  then show ?thesis
    by (simp add: write_requests [OF assms])
qed

text \<open>
  The requests of an \<open>apply\<close> whose local step does not fail and that has a remote change
  to make: none when the sync content cannot be built, or else the one write.
\<close>

lemma apply_remote_requests:
  assumes "syncPreviewResultPromise w = Some (Computed p)" and "content p = Some c" and "\<not> hasErrors S c"
      and "\<not> hasLocalChanged p \<or> \<not> stale (fileContent p) w" and "hasRemoteChanged p"
      and "storeConfigured w" and "authToken w = Some tok" and "tok \<noteq> []"
  shows "(case toSyncContent S w c (map_option sd_content (syncData (remoteUserData p))) of
            Inl e \<Rightarrow> fst (apply' S fp w) = Inl e \<and> requests (snd (apply' S fp w)) = requests w
          | Inr k \<Rightarrow>
              requests (snd (apply' S fp w))
                = requests w @ [\<lparr>rq_type = POST, rq_url = [''resource'', resourceKey],
                                 rq_headers = [(''Content-Type'', ''text/plain'')]
                                   @ (if fp \<or> rud_ref (remoteUserData p) = [] then []
                                      else [(''If-Match'', rud_ref (remoteUserData p))])
                                   @ [(''authorization'', ''Bearer '' @ tok)],
                                 rq_data = Some (JSON_stringify S (ofSyncData (Some
                                    \<lparr>sd_version = version, sd_content = k\<rparr>)))\<rparr>])"
proof -
  obtain kb where kb: "toSyncContent S w c None = Inr kb"
    by (simp add: toSyncContent_None)
  let ?wb = "backupLocal S kb w"
  let ?wl = "if hasLocalChanged p
             then ?wb\<lparr>localFile := Some \<lparr>fc_value = c, fc_mtime = clock ?wb\<rparr>, clock := Suc (clock ?wb)\<rparr>
             else w"
  let ?b = "toSyncContent S w c (map_option sd_content (syncData (remoteUserData p)))"
  have l: "(if hasLocalChanged p
            then updateLocalFileContent c (fileContent p) ?wb
            else (Inr (), w)) = (Inr (), ?wl)"
    using assms(4) by (simp add: updateLocalFileContent_fresh)
  have wl: "storeConfigured ?wl" "authToken ?wl = Some tok" "requests ?wl = requests w"
    using assms(6,7) by (simp_all add: backupLocal_def)
  show ?thesis
  proof (cases ?b)
    case (Inl e)
    have "applyContent S fp p w = (Inl e, ?wl)"
      using assms(5) Inl by (simp add: applyContent_steps [OF assms(2,3) kb] l)
    then have "apply' S fp w = (Inl e, ?wl)"
      using assms(1) by (simp add: apply'_def)
    then show ?thesis
      using Inl wl(3) by simp
  next
    case (Inr k)
    let ?u = "updateRemoteUserData S k (if fp then None else Some (rud_ref (remoteUserData p))) ?wl"
    have a: "applyContent S fp p w
               = (case ?u of (Inl e, w2) \<Rightarrow> (Inl e, w2) | (Inr r', w2) \<Rightarrow> (Inr r', w2\<lparr>conflictsPreviewResource := None\<rparr>))"
      using assms(5) Inr by (simp add: applyContent_steps [OF assms(2,3) kb] l)
    obtain x w2 where u: "?u = (x, w2)"
      by (cases ?u)
    obtain x' w2' where a': "applyContent S fp p w = (x', w2')" and r: "requests w2' = requests w2"
      using a u by (cases x) simp_all
    have "requests (snd (apply' S fp w)) = requests (snd ?u)"
      using apply_after_content [OF assms(1) a'] r u by simp
    also have "\<dots> = requests ?wl @ [\<lparr>rq_type = POST, rq_url = [''resource'', resourceKey],
                            rq_headers = [(''Content-Type'', ''text/plain'')]
                              @ (case (if fp then None else Some (rud_ref (remoteUserData p))) of
                                   Some r \<Rightarrow> if r = [] then [] else [(''If-Match'', r)] | None \<Rightarrow> [])
                              @ [(''authorization'', ''Bearer '' @ tok)],
                            rq_data = Some (JSON_stringify S (ofSyncData (Some \<lparr>sd_version = version, sd_content = k\<rparr>)))\<rparr>]"
      by (rule updateRemoteUserData_requests [OF wl(1,2) assms(8)])
    finally show ?thesis
      using Inr by (simp add: wl(3))
  qed
qed


text \<open>
  C3 does not hold: \<open>apply\<close> takes the backup only when the local file is about to be
  overwritten, but what it hands to the backup store is \<open>content\<close>, the candidate it is
  about to write, where \<open>fileContent\<close> holds what the file held. Here the file holds
  \<open>[1]\<close>, the checkpoint agrees, the remote holds \<open>[2]\<close>: the file becomes \<open>[2]\<close>, the one
  snapshot taken is of \<open>[2]\<close>, and \<open>[1]\<close> is kept nowhere.
\<close>

theorem apply_local_change_counterexample:
  "map_option fc_value (localFile (fileWith ''[1]'')) = Some ''[1]''
   \<and> backups (fileWith ''[1]'') = []
   \<and> fst (performSyncTry (testServices []) (remoteWith ''1'' ''[2]'') (lastSyncWith ''0'' ''[1]'') (fileWith ''[1]''))
       = Inr Idle
   \<and> backups (snd (performSyncTry (testServices []) (remoteWith ''1'' ''[2]'') (lastSyncWith ''0'' ''[1]'') (fileWith ''[1]'')))
       = [''{version:1,content:{linux:[2];all:[2];}}'']
   \<and> map_option fc_value (localFile (snd (performSyncTry (testServices []) (remoteWith ''1'' ''[2]'')
         (lastSyncWith ''0'' ''[1]'') (fileWith ''[1]''))))
       = Some ''[2]''"
  by code_simp

text \<open>
  C3, what \<open>apply\<close> does on a local change. Whenever it runs on a computed preview with
  valid candidate content and \<open>hasLocalChanged\<close>, it hands the backup store one snapshot:
  the sync content built from the candidate content, in the envelope. Then, if the
  keybindings file is not what the preview read (\<open>stale\<close>), it raises
  \<open>LocalPreconditionFailed\<close> and leaves the file, and everything but the backup, as it
  was; otherwise the file ends up holding the candidate content.
\<close>

theorem apply_local_change:
  assumes "syncPreviewResultPromise w = Some (Computed p)" and "content p = Some c"
      and "\<not> hasErrors S c" and "hasLocalChanged p"
  shows "(case toSyncContent S w c None of
            Inl e \<Rightarrow> False
          | Inr k \<Rightarrow>
              backups (snd (apply' S fp w))
                = backups w @ [JSON_stringify S (ofSyncData (Some \<lparr>sd_version = version, sd_content = k\<rparr>))]
              \<and> (if stale (fileContent p) w
                  then apply' S fp w
                         = (Inl (UserDataSyncError LocalPreconditionFailed),
                            w\<lparr>backups := backups w @ [JSON_stringify S (ofSyncData (Some
                                 \<lparr>sd_version = version, sd_content = k\<rparr>))]\<rparr>)
                  else localFile (snd (apply' S fp w)) = Some \<lparr>fc_value = c, fc_mtime = clock w\<rparr>))"
proof -
  obtain kb where kb: "toSyncContent S w c None = Inr kb"
    by (simp add: toSyncContent_None)
  let ?wb = "backupLocal S kb w"
  have wb: "?wb = w\<lparr>backups := backups w @ [JSON_stringify S (ofSyncData (Some
                            \<lparr>sd_version = version, sd_content = kb\<rparr>))]\<rparr>"
    by (simp add: backupLocal_def)
  have "backups (snd (apply' S fp w))
                = backups w @ [JSON_stringify S (ofSyncData (Some \<lparr>sd_version = version, sd_content = kb\<rparr>))]
              \<and> (if stale (fileContent p) w
                  then apply' S fp w
                         = (Inl (UserDataSyncError LocalPreconditionFailed),
                            w\<lparr>backups := backups w @ [JSON_stringify S (ofSyncData (Some
                                 \<lparr>sd_version = version, sd_content = kb\<rparr>))]\<rparr>)
                  else localFile (snd (apply' S fp w)) = Some \<lparr>fc_value = c, fc_mtime = clock w\<rparr>)"
  proof (cases "stale (fileContent p) w")
    case True
    have "applyContent S fp p w = (Inl (UserDataSyncError LocalPreconditionFailed), ?wb)"
      using assms(4) True by (simp add: applyContent_steps [OF assms(2,3) kb] updateLocalFileContent_stale)
    then have "apply' S fp w = (Inl (UserDataSyncError LocalPreconditionFailed), ?wb)"
      using assms(1) by (simp add: apply'_def)
    then show ?thesis
      using True by (simp add: wb)
  next
    case False
    let ?wl = "?wb\<lparr>localFile := Some \<lparr>fc_value = c, fc_mtime = clock ?wb\<rparr>, clock := Suc (clock ?wb)\<rparr>"
    let ?b = "toSyncContent S w c (map_option sd_content (syncData (remoteUserData p)))"
    let ?r = "(if hasRemoteChanged p
                 then (case ?b of
                         Inl e \<Rightarrow> (Inl e, ?wl)
                       | Inr k \<Rightarrow> updateRemoteUserData S k (if fp then None else Some (rud_ref (remoteUserData p))) ?wl)
                 else (Inr (remoteUserData p), ?wl))"
    have a: "applyContent S fp p w
               = (case ?r of (Inl e, w2) \<Rightarrow> (Inl e, w2) | (Inr r', w2) \<Rightarrow> (Inr r', w2\<lparr>conflictsPreviewResource := None\<rparr>))"
      using assms(4) False by (simp add: applyContent_steps [OF assms(2,3) kb] updateLocalFileContent_fresh)
    obtain x w2 where r: "?r = (x, w2)"
      by (cases ?r)
    have s: "backups w2 = backups ?wl \<and> localFile w2 = localFile ?wl"
    proof (cases "hasRemoteChanged p")
      case True
      then have "w2 = snd (case ?b of
                         Inl e \<Rightarrow> (Inl e, ?wl)
                       | Inr k \<Rightarrow> updateRemoteUserData S k (if fp then None else Some (rud_ref (remoteUserData p))) ?wl)"
        using r by simp
      then show ?thesis
        using remoteStep_sameLocal [where w = ?wl and built = ?b and S = S] by (simp add: sameLocal_def)
    next
      case False
      then show ?thesis using r by simp
    qed
    obtain x' w2' where a': "applyContent S fp p w = (x', w2')"
        and f: "backups w2' = backups w2 \<and> localFile w2' = localFile w2"
      using a r by (cases x) simp_all
    have "backups (snd (apply' S fp w)) = backups ?wl \<and> localFile (snd (apply' S fp w)) = localFile ?wl"
      using apply_after_content [OF assms(1) a'] f s by simp
    then show ?thesis
      using False by (simp add: backupLocal_def)
  qed
  then show ?thesis
    by (simp add: kb)
qed

theorem apply_local_change_witness:
  "syncPreviewResultPromise ((previewOf ''[2]'' True False False ''[1]'' ''[2]'')\<lparr>localFile := Some \<lparr>fc_value = ''[3]'', fc_mtime = 1\<rparr>, clock := 2\<rparr>)
     = Some (Computed \<lparr>fileContent = Some \<lparr>fc_value = ''[1]'', fc_mtime = 0\<rparr>,
                remoteUserData = remoteWith ''1'' ''[2]'', lastSyncUserData = None,
                content = Some ''[2]'', hasLocalChanged = True, hasRemoteChanged = False, hasConflicts = False\<rparr>)
   \<and> \<not> hasErrors (testServices []) ''[2]''
   \<and> stale (Some \<lparr>fc_value = ''[1]'', fc_mtime = 0\<rparr>)
        ((previewOf ''[2]'' True False False ''[1]'' ''[2]'')\<lparr>localFile := Some \<lparr>fc_value = ''[3]'', fc_mtime = 1\<rparr>, clock := 2\<rparr>)
   \<and> apply' (testServices []) False
        ((previewOf ''[2]'' True False False ''[1]'' ''[2]'')\<lparr>localFile := Some \<lparr>fc_value = ''[3]'', fc_mtime = 1\<rparr>, clock := 2\<rparr>)
       = (Inl (UserDataSyncError LocalPreconditionFailed),
          (previewOf ''[2]'' True False False ''[1]'' ''[2]'')
            \<lparr>localFile := Some \<lparr>fc_value = ''[3]'', fc_mtime = 1\<rparr>, clock := 2,
             backups := [''{version:1,content:{linux:[2];all:[2];}}'']\<rparr>)"
proof -
  let ?w = "(previewOf ''[2]'' True False False ''[1]'' ''[2]'')\<lparr>localFile := Some \<lparr>fc_value = ''[3]'', fc_mtime = 1\<rparr>, clock := 2\<rparr>"
  let ?p = "\<lparr>fileContent = Some \<lparr>fc_value = ''[1]'', fc_mtime = 0\<rparr>,
                remoteUserData = remoteWith ''1'' ''[2]'', lastSyncUserData = None,
                content = Some ''[2]'', hasLocalChanged = True, hasRemoteChanged = False, hasConflicts = False\<rparr>"
  have h1: "syncPreviewResultPromise ?w = Some (Computed ?p)"
    by (simp add: previewOf_def)
  have h2: "content ?p = Some ''[2]''" and h4: "hasLocalChanged ?p"
    by simp_all
  have h3: "\<not> hasErrors (testServices []) ''[2]''"
    by code_simp
  have s: "stale (fileContent ?p) ?w"
    by (simp add: stale_def previewOf_def)
  have e1: "backups (previewOf ''[2]'' True False False ''[1]'' ''[2]'') = []"
    by code_simp
  have e2: "toSyncContent (testServices []) ?w ''[2]'' None = Inr ''{linux:[2];all:[2];}''"
    by code_simp
  have e3: "JSON_stringify (testServices []) (ofSyncData (Some
                            \<lparr>sd_version = version, sd_content = ''{linux:[2];all:[2];}''\<rparr>))
              = ''{version:1,content:{linux:[2];all:[2];}}''"
    by code_simp
  have "apply' (testServices []) False ?w
       = (Inl (UserDataSyncError LocalPreconditionFailed),
          ?w\<lparr>backups := [''{version:1,content:{linux:[2];all:[2];}}'']\<rparr>)"
    using apply_local_change [OF h1 h2 h3 h4, of False] s
    unfolding e2 by (simp add: e1 e3)
  then show ?thesis
    using h1 h3 s by simp
qed


section \<open>The checkpoint\<close>








section \<open>\<open>accept\<close>\<close>

text \<open>
  C8, as stated, fails: when the accepted content does not pass the validity check,
  \<open>apply\<close> raises \<open>LocalInvalidContent\<close>, and \<open>accept\<close> with it, before the status is
  set: it stays \<open>HasConflicts\<close>.
\<close>

theorem accept_counterexample:
  "status conflictWorld = HasConflicts
   \<and> fst (accept conflictServices ''{'' conflictWorld) = Inl (UserDataSyncError LocalInvalidContent)
   \<and> status (snd (accept conflictServices ''{'' conflictWorld)) = HasConflicts"
  by code_simp

lemma setStatus_status [simp]: "status (setStatus s w) = s"
  by (simp add: setStatus_def)

lemma setStatus_requests [simp]: "requests (setStatus s w) = requests w"
  by (simp add: setStatus_def)

lemma stale_preview [simp]: "stale old (w\<lparr>syncPreviewResultPromise := x\<rparr>) = stale old w"
  by (cases old) (simp_all add: stale_def)

text \<open>
  Without a preview in flight \<open>accept\<close> leaves an object with the accepted content only,
  on which \<open>apply\<close> fails: on the validity check, or else, after it has deleted the
  preview file, on the remote data that are not there.
\<close>

lemma accept_without_preview:
  assumes "status w = HasConflicts" and "syncPreviewResultPromise w = None"
  shows "accept S c w
           = (if hasErrors S c
              then (Inl (UserDataSyncError LocalInvalidContent),
                    w\<lparr>syncPreviewResultPromise := Some (ContentOnly c)\<rparr>)
              else (Inl TypeError,
                    w\<lparr>syncPreviewResultPromise := Some (ContentOnly c), conflictsPreviewResource := None\<rparr>))"
  using assms by (simp add: accept_def cancel_def apply'_def Let_def)

text \<open>
  C8, amended. In \<open>HasConflicts\<close>, with a preview in flight, \<open>accept\<close> runs \<open>apply\<close> with
  \<open>forcePush\<close> on the preview whose candidate is the accepted content. The status is
  \<open>Idle\<close> afterwards when \<open>apply\<close> returns, and still \<open>HasConflicts\<close> when it raises. When
  the preview has \<open>hasRemoteChanged\<close>, and the content is valid and the local step does
  not fail, the one request sent is the write of the sync content built from the accepted
  content, without \<open>If-Match\<close>; when that sync content cannot be built, the error of
  building it is raised and nothing is sent.
\<close>

theorem accept_resolves:
  assumes "status w = HasConflicts" and "syncPreviewResultPromise w = Some (Computed p)"
  shows "accept S c w
           = (case apply' S True (w\<lparr>syncPreviewResultPromise := Some (Computed (p\<lparr>content := Some c\<rparr>))\<rparr>) of
                (Inl e, w1) \<Rightarrow> (Inl e, w1)
              | (Inr u, w1) \<Rightarrow> (Inr (), setStatus Idle w1))
         \<and> status (snd (accept S c w)) = (if fst (accept S c w) = Inr () then Idle else HasConflicts)
         \<and> (\<forall>tok. hasRemoteChanged p \<and> \<not> hasErrors S c
                   \<and> \<not> (hasLocalChanged p \<and> stale (fileContent p) w)
                   \<and> storeConfigured w \<and> authToken w = Some tok \<and> tok \<noteq> [] \<longrightarrow>
              (case toSyncContent S w c (map_option sd_content (syncData (remoteUserData p))) of
                 Inl e \<Rightarrow> fst (accept S c w) = Inl e \<and> requests (snd (accept S c w)) = requests w
               | Inr k \<Rightarrow>
                   requests (snd (accept S c w))
                     = requests w @
                       [\<lparr>rq_type = POST, rq_url = [''resource'', resourceKey],
                         rq_headers = [(''Content-Type'', ''text/plain''), (''authorization'', ''Bearer '' @ tok)],
                         rq_data = Some (JSON_stringify S (ofSyncData (Some
                                     \<lparr>sd_version = version, sd_content = k\<rparr>)))\<rparr>]))"
proof -
  let ?w0 = "w\<lparr>syncPreviewResultPromise := Some (Computed (p\<lparr>content := Some c\<rparr>))\<rparr>"
  let ?b = "toSyncContent S w c (map_option sd_content (syncData (remoteUserData p)))"
  have a: "accept S c w
           = (case apply' S True ?w0 of
                (Inl e, w1) \<Rightarrow> (Inl e, w1)
              | (Inr u, w1) \<Rightarrow> (Inr (), setStatus Idle w1))"
    using assms by (simp add: accept_def cancel_def Let_def)
  obtain x w1 where b: "apply' S True ?w0 = (x, w1)"
    by (cases "apply' S True ?w0")
  have s: "status w1 = HasConflicts"
    using apply_status [of S True ?w0] assms(1) by (simp add: b)
  have st: "status (snd (accept S c w)) = (if fst (accept S c w) = Inr () then Idle else HasConflicts)"
    using s by (cases x) (simp_all add: a b)
  have rq: "requests (snd (accept S c w)) = requests (snd (apply' S True ?w0))"
    by (cases x) (simp_all add: a b)
  have r: "(case ?b of
                 Inl e \<Rightarrow> fst (accept S c w) = Inl e \<and> requests (snd (accept S c w)) = requests w
               | Inr k \<Rightarrow>
                   requests (snd (accept S c w))
                     = requests w @
                       [\<lparr>rq_type = POST, rq_url = [''resource'', resourceKey],
                         rq_headers = [(''Content-Type'', ''text/plain''), (''authorization'', ''Bearer '' @ tok)],
                         rq_data = Some (JSON_stringify S (ofSyncData (Some
                                     \<lparr>sd_version = version, sd_content = k\<rparr>)))\<rparr>])"
    if h: "hasRemoteChanged p" "\<not> hasErrors S c" "\<not> (hasLocalChanged p \<and> stale (fileContent p) w)"
          "storeConfigured w" "authToken w = Some tok" "tok \<noteq> []" for tok
  proof -
    let ?p = "p\<lparr>content := Some c\<rparr>"
    have t: "toSyncContent S ?w0 c (map_option sd_content (syncData (remoteUserData ?p))) = ?b"
      using toSyncContent_setting [of ?w0 w S c] by simp
    have "(case toSyncContent S ?w0 c (map_option sd_content (syncData (remoteUserData ?p))) of
            Inl e \<Rightarrow> fst (apply' S True ?w0) = Inl e \<and> requests (snd (apply' S True ?w0)) = requests ?w0
          | Inr k \<Rightarrow>
              requests (snd (apply' S True ?w0))
                = requests ?w0 @ [\<lparr>rq_type = POST, rq_url = [''resource'', resourceKey],
                                 rq_headers = [(''Content-Type'', ''text/plain'')]
                                   @ (if True \<or> rud_ref (remoteUserData ?p) = [] then []
                                      else [(''If-Match'', rud_ref (remoteUserData ?p))])
                                   @ [(''authorization'', ''Bearer '' @ tok)],
                                 rq_data = Some (JSON_stringify S (ofSyncData (Some
                                    \<lparr>sd_version = version, sd_content = k\<rparr>)))\<rparr>])"
      by (rule apply_remote_requests) (use h in simp_all)
    then show ?thesis
      unfolding t by (cases ?b; cases x) (simp_all add: rq a b)
  qed
  show ?thesis
    using a st r by blast
qed

theorem accept_resolves_witness:
  "status conflictWorld = HasConflicts
   \<and> syncPreviewResultPromise conflictWorld
       = Some (Computed \<lparr>fileContent = Some \<lparr>fc_value = ''[1]'', fc_mtime = 0\<rparr>,
                          remoteUserData = remoteWith ''1'' ''[2]'', lastSyncUserData = None,
                          content = Some ''[1]'', hasLocalChanged = True, hasRemoteChanged = True,
                          hasConflicts = True\<rparr>)
   \<and> fst (accept conflictServices ''[3]'' conflictWorld) = Inr ()
   \<and> status (snd (accept conflictServices ''[3]'' conflictWorld)) = Idle
   \<and> map (\<lambda>q. (rq_type q, map_of (rq_headers q) ''If-Match'', rq_data q))
         (requests (snd (accept conflictServices ''[3]'' conflictWorld)))
       = [(GET, None, None), (POST, None, Some ''{version:1,content:{linux:[3];all:[3];}}'')]"
proof -
  have h1: "status conflictWorld = HasConflicts"
    by code_simp
  have h2: "syncPreviewResultPromise conflictWorld
       = Some (Computed \<lparr>fileContent = Some \<lparr>fc_value = ''[1]'', fc_mtime = 0\<rparr>,
                          remoteUserData = remoteWith ''1'' ''[2]'', lastSyncUserData = None,
                          content = Some ''[1]'', hasLocalChanged = True, hasRemoteChanged = True,
                          hasConflicts = True\<rparr>)"
    by code_simp
  have e2: "fst (accept conflictServices ''[3]'' conflictWorld) = Inr ()"
    by code_simp
  have e3: "map (\<lambda>q. (rq_type q, map_of (rq_headers q) ''If-Match'', rq_data q))
         (requests (snd (accept conflictServices ''[3]'' conflictWorld)))
       = [(GET, None, None), (POST, None, Some ''{version:1,content:{linux:[3];all:[3];}}'')]"
    by code_simp
  have "status (snd (accept conflictServices ''[3]'' conflictWorld))
          = (if fst (accept conflictServices ''[3]'' conflictWorld) = Inr () then Idle else HasConflicts)"
    using accept_resolves [OF h1 h2, of conflictServices "''[3]''"] by blast
  then have "status (snd (accept conflictServices ''[3]'' conflictWorld)) = Idle"
    by (simp add: e2)
  then show ?thesis
    using h1 h2 e2 e3 by simp
qed


section \<open>The preview\<close>

text \<open>
  C4, as stated, fails: with remote content and no last-sync content the merge is due, but
  local content that does not parse makes \<open>generatePreview\<close> raise
  \<open>LocalInvalidContent\<close> before the merge is called, and no preview is returned.
\<close>

theorem generatePreview_merge_counterexample:
  "generatePreview (testServices []) (remoteWith ''1'' ''[2]'') None (fileWith ''{'')
     = (Inl (UserDataSyncError LocalInvalidContent), fileWith ''{'')
   \<and> mergeCalls (fileWith ''{'') = []"
  by code_simp

lemma merge_condition:
  "rc \<noteq> [] \<Longrightarrow>
   (\<not> truthy ls \<or> ls \<noteq> Some lc \<or> ls \<noteq> Some rc) = (ls = None \<or> ls \<noteq> Some lc \<or> ls \<noteq> Some rc)"
  by (cases ls) auto

text \<open>
  C4, amended. When the remote content exists (is neither \<open>null\<close> nor empty) and the
  local content passes the validity check, \<open>generatePreview\<close> returns a preview; the
  merge is called, once and with local, remote and last-sync content, exactly when the
  last-sync content is absent or differs from the local or from the remote content; when
  it is called and reports changes, the candidate content is the merge result,
  \<open>hasConflicts\<close> is the merge's flag, and \<open>hasLocalChanged\<close> and \<open>hasRemoteChanged\<close> hold
  exactly when there are conflicts or the merge result differs from the local,
  respectively the remote, content; otherwise the candidate content is \<open>null\<close> and the
  three flags are false.
\<close>

theorem generatePreview_merge:
  fixes S r l w rc
  defines "ls \<equiv> lastSyncContent S w l"
      and "lc \<equiv> localContent (localFile w)"
  defines "result \<equiv> merge S lc rc ls"
      and "forwarded \<equiv> (ls = None \<or> ls \<noteq> Some lc \<or> ls \<noteq> Some rc)"
  assumes "remoteContent S w r = Some rc"
      and "rc \<noteq> []"
      and "\<not> hasErrors S lc"
  shows "(case generatePreview S r l w of
            (Inl e, w') \<Rightarrow> False
          | (Inr p, w') \<Rightarrow>
              mergeCalls w' = (if forwarded then mergeCalls w @ [(lc, rc, ls)] else mergeCalls w)
              \<and> (if forwarded \<and> hasChanges result
                  then content p = Some (mergeContent result)
                       \<and> hasConflicts p = mr_hasConflicts result
                       \<and> hasLocalChanged p = (mr_hasConflicts result \<or> mergeContent result \<noteq> lc)
                       \<and> hasRemoteChanged p = (mr_hasConflicts result \<or> mergeContent result \<noteq> rc)
                  else content p = None \<and> \<not> hasLocalChanged p \<and> \<not> hasRemoteChanged p \<and> \<not> hasConflicts p))"
proof -
  have c: "(\<not> truthy ls \<or> ls \<noteq> Some lc \<or> ls \<noteq> Some rc) = forwarded"
    unfolding forwarded_def using assms(6) by (rule merge_condition)
  show ?thesis
  proof (cases forwarded)
    case True
    then show ?thesis
      using assms(5-7) c
      by (simp add: generatePreview_def getLocalFileContent_def previewResult_def Let_def
            ls_def [symmetric] lc_def [symmetric] result_def [symmetric])
  next
    case False
    then show ?thesis
      using assms(5-7) c
      by (simp add: generatePreview_def getLocalFileContent_def previewResult_def Let_def
            ls_def [symmetric] lc_def [symmetric] result_def [symmetric])
  qed
qed

theorem generatePreview_merge_witness:
  "remoteContent (testServices []) (fileWith ''[1]'') (remoteWith ''1'' ''[2]'') = Some ''[2]''
   \<and> ''[2]'' \<noteq> []
   \<and> \<not> hasErrors (testServices []) (localContent (localFile (fileWith ''[1]'')))
   \<and> (case generatePreview (testServices []) (remoteWith ''1'' ''[2]'') (lastSyncWith ''0'' ''[1]'') (fileWith ''[1]'') of
         (Inl e, w') \<Rightarrow> False
       | (Inr p, w') \<Rightarrow>
           mergeCalls w' = [(''[1]'', ''[2]'', Some ''[1]'')]
           \<and> content p = Some ''[2]'' \<and> \<not> hasConflicts p \<and> hasLocalChanged p \<and> \<not> hasRemoteChanged p)"
proof -
  let ?S = "testServices []"
  let ?w = "fileWith ''[1]''"
  have h1: "remoteContent ?S ?w (remoteWith ''1'' ''[2]'') = Some ''[2]''"
    by code_simp
  have h2: "''[2]'' \<noteq> []"
    by simp
  have h3: "\<not> hasErrors ?S (localContent (localFile ?w))"
    by code_simp
  have e1: "lastSyncContent ?S ?w (lastSyncWith ''0'' ''[1]'') = Some ''[1]''"
    by code_simp
  have e2: "localContent (localFile ?w) = ''[1]''"
    by code_simp
  have e3: "merge ?S ''[1]'' ''[2]'' (Some ''[1]'')
              = \<lparr>mergeContent = ''[2]'', hasChanges = True, mr_hasConflicts = False\<rparr>"
    by code_simp
  have e4: "mergeCalls ?w = []"
    by code_simp
  have c: "(case generatePreview ?S (remoteWith ''1'' ''[2]'') (lastSyncWith ''0'' ''[1]'') ?w of
         (Inl e, w') \<Rightarrow> False
       | (Inr p, w') \<Rightarrow>
           mergeCalls w' = [(''[1]'', ''[2]'', Some ''[1]'')]
           \<and> content p = Some ''[2]'' \<and> \<not> hasConflicts p \<and> hasLocalChanged p \<and> \<not> hasRemoteChanged p)"
    using generatePreview_merge [OF h1 h2 h3, of "lastSyncWith ''0'' ''[1]''"]
    unfolding e1 e2 e3 e4
    by (simp split: prod.splits sum.splits)
  show ?thesis
    using h1 h2 h3 c by simp
qed


text \<open>
  C10, as stated, fails: the content of the local file becomes the candidate without
  having been validated, but it is not pushed unless it is valid, for \<open>apply\<close> validates
  the candidate. Here the remote data holds empty keybindings and the local file holds a
  text that does not parse: the preview takes the text as its candidate, with
  \<open>hasRemoteChanged\<close>, and the synchronisation ends in \<open>LocalInvalidContent\<close>, the fetch
  being the one request it has sent.
\<close>

theorem generatePreview_empty_remote_counterexample:
  "syncData (remoteWith ''1'' []) = Some \<lparr>sd_version = 1, sd_content = ''{linux:;all:;}''\<rparr>
   \<and> remoteContent emptyRemoteServices (fileWith ''{'') (remoteWith ''1'' []) = Some []
   \<and> generatePreview emptyRemoteServices (remoteWith ''1'' []) None (fileWith ''{'')
       = (Inr \<lparr>fileContent = Some \<lparr>fc_value = ''{'', fc_mtime = 0\<rparr>, remoteUserData = remoteWith ''1'' [],
                lastSyncUserData = None, content = Some ''{'',
                hasLocalChanged = False, hasRemoteChanged = True, hasConflicts = False\<rparr>,
          (fileWith ''{'')\<lparr>conflictsPreviewResource := Some ''{''\<rparr>)
   \<and> map_option fst (sync emptyRemoteServices None (fileWith ''{''))
       = Some (Inl (UserDataSyncError LocalInvalidContent))
   \<and> map_option (\<lambda>r. map rq_type (requests (snd r))) (sync emptyRemoteServices None (fileWith ''{''))
       = Some [GET]"
  by code_simp

text \<open>
  C10, amended. When the remote sync data exists but the keybindings extracted from it
  are absent or empty, \<open>generatePreview\<close> returns what it returns for remote data that
  does not exist (but for the remote data recorded in the preview): nothing is validated
  or merged, and the content of the local file, when there is one, is the candidate, with
  \<open>hasRemoteChanged\<close> set and the other two flags clear. A synchronisation that computes
  this preview for a local file then validates the candidate in \<open>apply\<close>: content that
  does not pass raises \<open>LocalInvalidContent\<close> and nothing is sent; for content that
  passes, the sync content is built from it and from the remote sync content, and is
  posted in the envelope, under the ref of the remote data; when it cannot be built (the
  remote sync content parses to a value that is no object), the error of building it is
  raised and nothing is sent.
\<close>

theorem generatePreview_empty_remote:
  assumes "syncData r = Some d"
      and "\<not> truthy (remoteContent S w r)"
  shows "generatePreview S r l w
           = (Inr \<lparr>fileContent = localFile w, remoteUserData = r, lastSyncUserData = l,
                    content = map_option fc_value (localFile w),
                    hasLocalChanged = False, hasRemoteChanged = (localFile w \<noteq> None), hasConflicts = False\<rparr>,
              if truthy (map_option fc_value (localFile w))
              then w\<lparr>conflictsPreviewResource := map_option fc_value (localFile w)\<rparr> else w)
         \<and> generatePreview S r l w
           = (case generatePreview S (r\<lparr>syncData := None\<rparr>) l w of
                (Inl e, w') \<Rightarrow> (Inl e, w')
              | (Inr p, w') \<Rightarrow> (Inr (p\<lparr>remoteUserData := r\<rparr>), w'))
         \<and> (\<forall>f tok. syncPreviewResultPromise w = None \<and> localFile w = Some f
               \<and> storeConfigured w \<and> authToken w = Some tok \<and> tok \<noteq> [] \<longrightarrow>
             (if hasErrors S (fc_value f)
              then fst (performSyncTry S r l w) = Inl (UserDataSyncError LocalInvalidContent)
                   \<and> requests (snd (performSyncTry S r l w)) = requests w
              else (case toSyncContent S w (fc_value f) (Some (sd_content d)) of
                      Inl e \<Rightarrow>
                        fst (performSyncTry S r l w) = Inl e
                        \<and> requests (snd (performSyncTry S r l w)) = requests w
                    | Inr k \<Rightarrow>
                        requests (snd (performSyncTry S r l w))
                          = requests w @
                            [\<lparr>rq_type = POST, rq_url = [''resource'', resourceKey],
                              rq_headers = [(''Content-Type'', ''text/plain'')]
                                @ (if rud_ref r = [] then [] else [(''If-Match'', rud_ref r)])
                                @ [(''authorization'', ''Bearer '' @ tok)],
                              rq_data = Some (JSON_stringify S (ofSyncData (Some
                                          \<lparr>sd_version = version, sd_content = k\<rparr>)))\<rparr>])))"
proof -
  have g: "generatePreview S r l w
           = (Inr \<lparr>fileContent = localFile w, remoteUserData = r, lastSyncUserData = l,
                    content = map_option fc_value (localFile w),
                    hasLocalChanged = False, hasRemoteChanged = (localFile w \<noteq> None), hasConflicts = False\<rparr>,
              if truthy (map_option fc_value (localFile w))
              then w\<lparr>conflictsPreviewResource := map_option fc_value (localFile w)\<rparr> else w)"
    using assms(2)
    by (simp add: generatePreview_def getLocalFileContent_def previewResult_def Let_def split: option.splits)
  have rn: "remoteContent S w (r\<lparr>syncData := None\<rparr>) = None"
    by (simp add: remoteContent_def)
  have n: "generatePreview S (r\<lparr>syncData := None\<rparr>) l w
           = (Inr \<lparr>fileContent = localFile w, remoteUserData = r\<lparr>syncData := None\<rparr>, lastSyncUserData = l,
                    content = map_option fc_value (localFile w),
                    hasLocalChanged = False, hasRemoteChanged = (localFile w \<noteq> None), hasConflicts = False\<rparr>,
              if truthy (map_option fc_value (localFile w))
              then w\<lparr>conflictsPreviewResource := map_option fc_value (localFile w)\<rparr> else w)"
    by (simp add: generatePreview_def getLocalFileContent_def previewResult_def Let_def rn split: option.splits)
  have p: "(if hasErrors S (fc_value f)
              then fst (performSyncTry S r l w) = Inl (UserDataSyncError LocalInvalidContent)
                   \<and> requests (snd (performSyncTry S r l w)) = requests w
              else (case toSyncContent S w (fc_value f) (Some (sd_content d)) of
                      Inl e \<Rightarrow>
                        fst (performSyncTry S r l w) = Inl e
                        \<and> requests (snd (performSyncTry S r l w)) = requests w
                    | Inr k \<Rightarrow>
                        requests (snd (performSyncTry S r l w))
                          = requests w @
                            [\<lparr>rq_type = POST, rq_url = [''resource'', resourceKey],
                              rq_headers = [(''Content-Type'', ''text/plain'')]
                                @ (if rud_ref r = [] then [] else [(''If-Match'', rud_ref r)])
                                @ [(''authorization'', ''Bearer '' @ tok)],
                              rq_data = Some (JSON_stringify S (ofSyncData (Some
                                          \<lparr>sd_version = version, sd_content = k\<rparr>)))\<rparr>]))"
    if h: "syncPreviewResultPromise w = None" "localFile w = Some f"
          "storeConfigured w" "authToken w = Some tok" "tok \<noteq> []" for f tok
  proof -
    define p where "p = \<lparr>fileContent = localFile w, remoteUserData = r, lastSyncUserData = l,
                    content = map_option fc_value (localFile w),
                    hasLocalChanged = False, hasRemoteChanged = (localFile w \<noteq> None), hasConflicts = False\<rparr>"
    define w1 where "w1 = (if truthy (map_option fc_value (localFile w))
              then w\<lparr>conflictsPreviewResource := map_option fc_value (localFile w)\<rparr> else w)\<lparr>syncPreviewResultPromise := Some (Computed p)\<rparr>"
    let ?b = "toSyncContent S w (fc_value f) (Some (sd_content d))"
    have pf: "content p = Some (fc_value f)" "\<not> hasLocalChanged p" "hasRemoteChanged p" "\<not> hasConflicts p"
             "remoteUserData p = r"
      using h(2) by (simp_all add: p_def)
    have wf: "syncPreviewResultPromise w1 = Some (Computed p)" "requests w1 = requests w"
             "keybindingsPerPlatform w1 = keybindingsPerPlatform w"
             "storeConfigured w1" "authToken w1 = Some tok"
      using h(3,4) by (simp_all add: w1_def)
    obtain x w2 where a: "apply' S False w1 = (x, w2)"
      by (cases "apply' S False w1")
    have g': "getPreview S r l w = (Inr (Computed p), w1)"
      using h(1) by (simp add: getPreview_def g p_def w1_def)
    have t: "performSyncTry S r l w
               = (case x of Inl e \<Rightarrow> (Inl e, w2) | Inr u \<Rightarrow> (Inr Idle, w2))"
      using pf(4) by (cases x) (simp_all add: performSyncTry_def g' a)
    have f1: "fst (performSyncTry S r l w) = Inl e" if "x = Inl e" for e
      using that by (simp add: t)
    have r1: "requests (snd (performSyncTry S r l w)) = requests w2"
      by (cases x) (simp_all add: t)
    show ?thesis
    proof (cases "hasErrors S (fc_value f)")
      case True
      have "applyContent S False p w1 = (Inl (UserDataSyncError LocalInvalidContent), w1)"
        using True pf(1) by (simp add: applyContent_def)
      then have "apply' S False w1 = (Inl (UserDataSyncError LocalInvalidContent), w1)"
        using wf(1) by (simp add: apply'_def)
      then show ?thesis
        using True f1 r1 wf(2) a by simp
    next
      case False
      have k: "toSyncContent S w1 (fc_value f) (map_option sd_content (syncData (remoteUserData p))) = ?b"
        using toSyncContent_setting [OF wf(3), of S "fc_value f"] assms(1) pf(5) by simp
      have "(case toSyncContent S w1 (fc_value f) (map_option sd_content (syncData (remoteUserData p))) of
            Inl e \<Rightarrow> fst (apply' S False w1) = Inl e \<and> requests (snd (apply' S False w1)) = requests w1
          | Inr k \<Rightarrow>
              requests (snd (apply' S False w1))
                = requests w1 @ [\<lparr>rq_type = POST, rq_url = [''resource'', resourceKey],
                                 rq_headers = [(''Content-Type'', ''text/plain'')]
                                   @ (if False \<or> rud_ref (remoteUserData p) = [] then []
                                      else [(''If-Match'', rud_ref (remoteUserData p))])
                                   @ [(''authorization'', ''Bearer '' @ tok)],
                                 rq_data = Some (JSON_stringify S (ofSyncData (Some
                                    \<lparr>sd_version = version, sd_content = k\<rparr>)))\<rparr>])"
        using wf(1) pf(1) False _ pf(3) wf(4,5) h(5)
        by (rule apply_remote_requests) (simp add: pf(2))
      then show ?thesis
        unfolding k using False f1 r1 wf(2) pf(5) a by (cases ?b) simp_all
    qed
  qed
  have c: "generatePreview S r l w
           = (case generatePreview S (r\<lparr>syncData := None\<rparr>) l w of
                (Inl e, w') \<Rightarrow> (Inl e, w')
              | (Inr p, w') \<Rightarrow> (Inr (p\<lparr>remoteUserData := r\<rparr>), w'))"
    by (simp add: g n)
  show ?thesis
  proof (intro conjI allI impI)
    show "generatePreview S r l w
           = (Inr \<lparr>fileContent = localFile w, remoteUserData = r, lastSyncUserData = l,
                    content = map_option fc_value (localFile w),
                    hasLocalChanged = False, hasRemoteChanged = (localFile w \<noteq> None), hasConflicts = False\<rparr>,
              if truthy (map_option fc_value (localFile w))
              then w\<lparr>conflictsPreviewResource := map_option fc_value (localFile w)\<rparr> else w)"
      by (rule g)
  next
    show "generatePreview S r l w
           = (case generatePreview S (r\<lparr>syncData := None\<rparr>) l w of
                (Inl e, w') \<Rightarrow> (Inl e, w')
              | (Inr p, w') \<Rightarrow> (Inr (p\<lparr>remoteUserData := r\<rparr>), w'))"
      by (rule c)
  next
    fix f tok
    assume h: "syncPreviewResultPromise w = None \<and> localFile w = Some f
               \<and> storeConfigured w \<and> authToken w = Some tok \<and> tok \<noteq> []"
    show "(if hasErrors S (fc_value f)
              then fst (performSyncTry S r l w) = Inl (UserDataSyncError LocalInvalidContent)
                   \<and> requests (snd (performSyncTry S r l w)) = requests w
              else (case toSyncContent S w (fc_value f) (Some (sd_content d)) of
                      Inl e \<Rightarrow>
                        fst (performSyncTry S r l w) = Inl e
                        \<and> requests (snd (performSyncTry S r l w)) = requests w
                    | Inr k \<Rightarrow>
                        requests (snd (performSyncTry S r l w))
                          = requests w @
                            [\<lparr>rq_type = POST, rq_url = [''resource'', resourceKey],
                              rq_headers = [(''Content-Type'', ''text/plain'')]
                                @ (if rud_ref r = [] then [] else [(''If-Match'', rud_ref r)])
                                @ [(''authorization'', ''Bearer '' @ tok)],
                              rq_data = Some (JSON_stringify S (ofSyncData (Some
                                          \<lparr>sd_version = version, sd_content = k\<rparr>)))\<rparr>]))"
      by (rule p) (use h in simp_all)
  qed
qed

theorem generatePreview_empty_remote_witness:
  "syncData (remoteWith ''1'' []) = Some \<lparr>sd_version = 1, sd_content = ''{linux:;all:;}''\<rparr>
   \<and> \<not> truthy (remoteContent emptyRemoteServices (fileWith ''[1]'') (remoteWith ''1'' []))
   \<and> \<not> hasErrors emptyRemoteServices ''[1]''
   \<and> generatePreview emptyRemoteServices (remoteWith ''1'' []) None (fileWith ''[1]'')
       = (Inr \<lparr>fileContent = Some \<lparr>fc_value = ''[1]'', fc_mtime = 0\<rparr>, remoteUserData = remoteWith ''1'' [],
                lastSyncUserData = None, content = Some ''[1]'',
                hasLocalChanged = False, hasRemoteChanged = True, hasConflicts = False\<rparr>,
          (fileWith ''[1]'')\<lparr>conflictsPreviewResource := Some ''[1]''\<rparr>)
   \<and> requests (snd (performSyncTry emptyRemoteServices (remoteWith ''1'' []) None (fileWith ''[1]'')))
       = [\<lparr>rq_type = POST, rq_url = [''resource'', ''keybindings''],
           rq_headers = [(''Content-Type'', ''text/plain''), (''If-Match'', ''1''),
                         (''authorization'', ''Bearer token'')],
           rq_data = Some ''{version:1,content:{linux:[1];all:[1];}}''\<rparr>]
   \<and> \<not> truthy (remoteContent emptyRemoteServices (fileWith ''[1]'')
                  \<lparr>rud_ref = ''1'', syncData = Some \<lparr>sd_version = 1, sd_content = ''null''\<rparr>\<rparr>)
   \<and> fst (performSyncTry emptyRemoteServices
             \<lparr>rud_ref = ''1'', syncData = Some \<lparr>sd_version = 1, sd_content = ''null''\<rparr>\<rparr> None (fileWith ''[1]''))
       = Inl TypeError
   \<and> requests (snd (performSyncTry emptyRemoteServices
             \<lparr>rud_ref = ''1'', syncData = Some \<lparr>sd_version = 1, sd_content = ''null''\<rparr>\<rparr> None (fileWith ''[1]'')))
       = []"
proof -
  let ?S = emptyRemoteServices
  let ?w = "fileWith ''[1]''"
  let ?f = "\<lparr>fc_value = ''[1]'', fc_mtime = 0\<rparr>"
  have h1: "syncData (remoteWith ''1'' []) = Some \<lparr>sd_version = 1, sd_content = ''{linux:;all:;}''\<rparr>"
    by code_simp
  have h2: "\<not> truthy (remoteContent ?S ?w (remoteWith ''1'' []))"
    by code_simp
  have h3: "\<not> hasErrors ?S ''[1]''"
    by code_simp
  have h4: "syncPreviewResultPromise ?w = None \<and> localFile ?w = Some ?f
            \<and> storeConfigured ?w \<and> authToken ?w = Some ''token'' \<and> ''token'' \<noteq> []"
    by (simp add: fileWith_def testWorld_def)
  have e1: "toSyncContent ?S ?w ''[1]'' (Some ''{linux:;all:;}'') = Inr ''{linux:[1];all:[1];}''"
    by code_simp
  have e2: "JSON_stringify ?S (ofSyncData (Some \<lparr>sd_version = version, sd_content = ''{linux:[1];all:[1];}''\<rparr>))
              = ''{version:1,content:{linux:[1];all:[1];}}''"
    by code_simp
  have e3: "requests ?w = []" "rud_ref (remoteWith ''1'' []) = ''1''" "resourceKey = ''keybindings''"
    by (simp_all add: fileWith_def testWorld_def remoteWith_def resourceKey_def)
  note t = generatePreview_empty_remote [OF h1 h2, of None]
  have g: "generatePreview ?S (remoteWith ''1'' []) None ?w
       = (Inr \<lparr>fileContent = Some ?f, remoteUserData = remoteWith ''1'' [],
                lastSyncUserData = None, content = Some ''[1]'',
                hasLocalChanged = False, hasRemoteChanged = True, hasConflicts = False\<rparr>,
          ?w\<lparr>conflictsPreviewResource := Some ''[1]''\<rparr>)"
    using t [THEN conjunct1] by (simp add: fileWith_def testWorld_def)
  have "requests (snd (performSyncTry ?S (remoteWith ''1'' []) None ?w))
       = [\<lparr>rq_type = POST, rq_url = [''resource'', ''keybindings''],
           rq_headers = [(''Content-Type'', ''text/plain''), (''If-Match'', ''1''),
                         (''authorization'', ''Bearer token'')],
           rq_data = Some ''{version:1,content:{linux:[1];all:[1];}}''\<rparr>]"
    using t [THEN conjunct2, THEN conjunct2, rule_format, OF h4] h3
    by (simp add: e1 e2 e3)
  note push = this
  let ?r = "\<lparr>rud_ref = ''1'', syncData = Some \<lparr>sd_version = 1, sd_content = ''null''\<rparr>\<rparr>"
  have n1: "syncData ?r = Some \<lparr>sd_version = 1, sd_content = ''null''\<rparr>"
    by simp
  have n2: "\<not> truthy (remoteContent ?S ?w ?r)"
    by code_simp
  have n3: "toSyncContent ?S ?w ''[1]'' (Some ''null'') = Inl TypeError"
    by code_simp
  have "fst (performSyncTry ?S ?r None ?w) = Inl TypeError
        \<and> requests (snd (performSyncTry ?S ?r None ?w)) = []"
    using generatePreview_empty_remote [OF n1 n2, of None, THEN conjunct2, THEN conjunct2, rule_format, OF h4] h3
    by (simp add: n3 e3)
  then show ?thesis
    using h1 h2 h3 g push n2 by simp
qed


section \<open>Two synchronisations in a row\<close>

text \<open>
  C9 does not hold for an empty keybindings file. The first \<open>sync\<close> writes the empty
  content to the store and records it in the checkpoint. Nothing changes, and the store
  answers the second fetch 304; but the second \<open>sync\<close> extracts the empty string from the
  remote data, takes it for no remote content, and writes again: one more remote write,
  and a checkpoint with the new ref.
\<close>

theorem sync_twice_empty_file:
  "map_option fst (sync emptyFileServices None (fileWith [])) = Some (Inr ())
   \<and> status afterFirstSync = Idle
   \<and> map (\<lambda>q. (rq_type q, map_of (rq_headers q) ''If-None-Match'', map_of (rq_headers q) ''If-Match''))
         (requests afterFirstSync)
       = [(GET, None, None), (POST, None, Some ''0'')]
   \<and> lastSyncResource afterFirstSync
       = Some \<lparr>ls_ref = ''1'', ls_content = ''{version:1,content:{linux:;all:;}}''\<rparr>
   \<and> map_option fst (sync emptyFileServices None afterFirstSync) = Some (Inr ())
   \<and> map_option (\<lambda>r. map (\<lambda>q. (rq_type q, map_of (rq_headers q) ''If-None-Match'', map_of (rq_headers q) ''If-Match''))
                          (drop 2 (requests (snd r))))
         (sync emptyFileServices None afterFirstSync)
       = Some [(GET, Some ''1'', None), (POST, None, Some ''1'')]
   \<and> map_option (\<lambda>r. lastSyncResource (snd r)) (sync emptyFileServices None afterFirstSync)
       = Some (Some \<lparr>ls_ref = ''2'', ls_content = ''{version:1,content:{linux:;all:;}}''\<rparr>)"
  by code_simp



end
